theory Spec2Isabelle
  imports Main "HOL-Library.Multiset" "HOL-Library.Product_Lexorder"
begin

section \<open>JavaScript values\<close>

text \<open>
  The primitive values the modelled code compares. Numbers are the integers the
  code handles (enum members, positions, millisecond timestamps); \<open>NaN\<close> does not occur, so
  strict equality \<open>===\<close> is equality of these values.
\<close>

datatype jsval = JUndefined | JNull | JBool bool | JNum int | JStr string

text \<open>
  A value of type \<open>string | null\<close> under a truthiness test (\<open>None\<close> is \<open>null\<close>): only a
  non-empty string passes, and is then at hand.
\<close>

definition if_truthy :: "string option \<Rightarrow> string option" where
  "if_truthy v = (case v of None \<Rightarrow> None | Some s \<Rightarrow> if s = [] then None else Some s)"

text \<open>\<open>String(n)\<close> for an integer.\<close>

fun decimal :: "nat \<Rightarrow> string" where
  "decimal n = (if n < 10 then [char_of (48 + n)] else decimal (n div 10) @ [char_of (48 + n mod 10)])"

definition string_of_int :: "int \<Rightarrow> string" where
  "string_of_int i = (if i < 0 then CHR ''-'' # decimal (nat (- i)) else decimal (nat i))"

text \<open>\<open>xs.slice(0, end)\<close>: a negative \<open>end\<close> counts from the end of the array.\<close>

definition slice0 :: "int \<Rightarrow> 'a list \<Rightarrow> 'a list" where
  "slice0 e xs =
     (let n = int (length xs);
          k = (if e < 0 then max (n + e) 0 else min e n)
      in take (nat k) xs)"

section \<open>The diff mark of the diff view (src/components/diffview.tsx)\<close>

text \<open>
  \<open>DiffType\<close> is imported from \<open>@/lib/editor/diff\<close>; the members the mark reads are taken as
  a parameter.
\<close>

record diffTypeEnum =
  Inserted :: jsval
  Deleted :: jsval

record mark =
  mark_name :: string
  attrs :: "(string \<times> jsval) list"

text \<open>Property access \<open>mark.attrs.type\<close>: a missing key reads as \<open>undefined\<close>.\<close>

definition attrs_type :: "mark \<Rightarrow> jsval" where
  "attrs_type m = (case map_of (attrs m) ''type'' of None \<Rightarrow> JUndefined | Some v \<Rightarrow> v)"

text \<open>A DOM output spec \<open>[tag, attributes, 0]\<close>; the \<open>0\<close> is the hole that takes the content.\<close>

datatype domChild = ContentHole

datatype domOutputSpec = DomElement string "(string \<times> string) list" domChild

definition toDOM :: "diffTypeEnum \<Rightarrow> mark \<Rightarrow> domOutputSpec" where
  "toDOM DiffType m =
     (let type = attrs_type m in
      if type = Inserted DiffType then
        DomElement ''span'' [(''class'', ''diff-inserted''), (''data-diff'', ''inserted'')] ContentHole
      else if type = Deleted DiffType then
        DomElement ''span'' [(''class'', ''diff-deleted''), (''data-diff'', ''deleted'')] ContentHole
      else DomElement ''span'' [] ContentHole)"

text \<open>The attribute declaration \<open>attrs: { type: { default: '' } }\<close> of the mark.\<close>

definition diffMark_default_type :: jsval where
  "diffMark_default_type = JStr ''''"

section \<open>Suggestion decorations (createDecorations, src/unnamed/part_002)\<close>

record uiSuggestion =
  UISuggestion_id :: string
  selectionStart :: int
  selectionEnd :: int

record decorationSpec =
  suggestionId :: string
  spec_type :: string

text \<open>
  \<open>Decoration.inline(from, to, attrs, spec)\<close> and \<open>Decoration.widget(pos, toDOM, spec)\<close>, kept
  as the values the code constructs. The widget's \<open>toDOM\<close> is the closure over the suggestion.
\<close>

datatype ('view, 'dom) decoration =
  Inline int int "(string \<times> string) list" decorationSpec
| Widget int "'view \<Rightarrow> 'dom" decorationSpec

text \<open>\<open>DecorationSet.create(doc, decorations)\<close>: the set built from a document and decorations.\<close>

datatype ('doc, 'view, 'dom) decorationSet =
  DecorationSet_create 'doc "('view, 'dom) decoration list"

fun built_from :: "('doc, 'view, 'dom) decorationSet \<Rightarrow> ('view, 'dom) decoration list" where
  "built_from (DecorationSet_create d ds) = ds"

record 'dom suggestionWidget =
  dom :: 'dom

text \<open>
  One pass of the \<open>for ... of\<close> loop: \<open>decorations.push(inline, widget)\<close>.
  \<open>createSuggestionWidget\<close> comes from \<open>./suggestions\<close> and is a parameter.
\<close>

definition push_suggestion ::
  "(uiSuggestion \<Rightarrow> 'view \<Rightarrow> 'dom suggestionWidget) \<Rightarrow>
   ('view, 'dom) decoration list \<Rightarrow> uiSuggestion \<Rightarrow> ('view, 'dom) decoration list" where
  "push_suggestion createSuggestionWidget decorations suggestion =
     decorations @
       [Inline (selectionStart suggestion) (selectionEnd suggestion)
          [(''class'', ''suggestion-highlight'')]
          \<lparr>suggestionId = UISuggestion_id suggestion, spec_type = ''highlight''\<rparr>,
        Widget (selectionStart suggestion)
          (\<lambda>view. dom (createSuggestionWidget suggestion view))
          \<lparr>suggestionId = UISuggestion_id suggestion, spec_type = ''widget''\<rparr>]"

definition createDecorations ::
  "(uiSuggestion \<Rightarrow> 'view \<Rightarrow> 'dom suggestionWidget) \<Rightarrow> ('view \<Rightarrow> 'doc) \<Rightarrow>
   uiSuggestion list \<Rightarrow> 'view \<Rightarrow> ('doc, 'view, 'dom) decorationSet" where
  "createDecorations createSuggestionWidget state_doc suggestions view =
     DecorationSet_create (state_doc view)
       (foldl (push_suggestion createSuggestionWidget) [] suggestions)"

section \<open>The message migration script (src/components/diffview.tsx, second file)\<close>























section \<open>The database (schema: src/unnamed/part_001)\<close>

text \<open>
  The tables of the Prisma schema that the query module reads and writes, each with the
  columns the module touches; timestamps are milliseconds. A table is the list of its rows.
  \<open>Vote.createdAt\<close>, set by the database, and the columns no query of the module names
  are left out.
\<close>

datatype visibilityType = Private | Public

datatype artifactKind = KindText | KindCode | KindImage | KindSheet

record user =
  User_id :: string
  User_username :: string
  User_email :: "string option"
  User_password_hash :: "string option"

record chat =
  Chat_id :: string
  Chat_userId :: string
  Chat_title :: "string option"
  Chat_visibility :: visibilityType
  Chat_createdAt :: int

record message =
  Message_id :: string
  Message_chatId :: string
  Message_role :: string
  Message_content :: string
  Message_createdAt :: int

record vote =
  Vote_chatId :: string
  Vote_messageId :: string
  Vote_userId :: string
  Vote_isUpvoted :: bool

record stream =
  Stream_id :: string
  Stream_chatId :: string
  Stream_createdAt :: int

record document =
  Document_id :: string
  Document_userId :: string
  Document_title :: "string option"
  Document_content :: "string option"
  Document_kind :: artifactKind
  Document_createdAt :: int

record suggestion =
  Suggestion_id :: string
  Suggestion_documentId :: string
  Suggestion_originalText :: string
  Suggestion_suggestedText :: string
  Suggestion_userId :: string
  Suggestion_createdAt :: int

text \<open>
  The state of the database. \<open>db_faults\<close> is the fate of the coming operations, one entry
  each: \<open>Some e\<close> makes the operation fail with the error \<open>e\<close> whatever its arguments (a lost
  connection, a timeout, a constraint of a table not modelled here); when the list is used up,
  operations run undisturbed.
\<close>

record db =
  db_users :: "user list"
  db_chats :: "chat list"
  db_messages :: "message list"
  db_votes :: "vote list"
  db_streams :: "stream list"
  db_documents :: "document list"
  db_suggestions :: "suggestion list"
  db_faults :: "string option list"

text \<open>
  What a function can throw: an error of the Prisma client, or the application's
  \<open>ChatSDKError(code, cause)\<close>.
\<close>

datatype thrown = PrismaError string | ChatSDKError string "string option"

text \<open>An asynchronous computation on the database: its outcome and the state it leaves.\<close>

type_synonym 'a io = "db \<Rightarrow> (thrown + 'a) \<times> db"

definition io_return :: "'a \<Rightarrow> 'a io" where
  "io_return v s = (Inr v, s)"

definition io_throw :: "thrown \<Rightarrow> 'a io" where
  "io_throw e s = (Inl e, s)"

definition io_bind :: "'a io \<Rightarrow> ('a \<Rightarrow> 'b io) \<Rightarrow> 'b io" where
  "io_bind m f s = (case m s of (Inl e, s') \<Rightarrow> (Inl e, s') | (Inr v, s') \<Rightarrow> f v s')"

text \<open>\<open>try { body } catch (error) { handler }\<close>: what the body wrote before it threw stays written.\<close>

definition try_catch :: "'a io \<Rightarrow> (thrown \<Rightarrow> 'a io) \<Rightarrow> 'a io" where
  "try_catch body handler s =
     (case body s of (Inl e, s') \<Rightarrow> handler e s' | (Inr v, s') \<Rightarrow> (Inr v, s'))"

text \<open>One call of the Prisma client: it fails if its fate says so, and runs otherwise.\<close>

definition prisma :: "(db \<Rightarrow> (thrown + 'a) \<times> db) \<Rightarrow> 'a io" where
  "prisma operation s =
     (case db_faults s of
        [] \<Rightarrow> operation s
      | None # rest \<Rightarrow> operation (s\<lparr>db_faults := rest\<rparr>)
      | Some e # rest \<Rightarrow> (Inl (PrismaError e), s\<lparr>db_faults := rest\<rparr>))"

subsection \<open>Reading rows\<close>

datatype sortOrder = Asc | Desc

text \<open>
  \<open>orderBy\<close> on a timestamp column. The database leaves the order of rows with equal
  timestamps open; here they keep their table order.
\<close>

definition orderRows :: "(('a \<Rightarrow> int) \<times> sortOrder) option \<Rightarrow> 'a list \<Rightarrow> 'a list" where
  "orderRows orderBy rows =
     (case orderBy of
        None \<Rightarrow> rows
      | Some (key, Asc) \<Rightarrow> sort_key key rows
      | Some (key, Desc) \<Rightarrow> sort_key (\<lambda>r. - key r) rows)"

text \<open>\<open>take: n\<close>: the first \<open>n\<close> rows, or the last \<open>-n\<close> rows for a negative \<open>n\<close>.\<close>

definition takeRows :: "int option \<Rightarrow> 'a list \<Rightarrow> 'a list" where
  "takeRows n rows =
     (case n of
        None \<Rightarrow> rows
      | Some k \<Rightarrow> if 0 \<le> k then take (nat k) rows else drop (length rows - nat (- k)) rows)"

definition findManyRows ::
  "('a \<Rightarrow> bool) \<Rightarrow> (('a \<Rightarrow> int) \<times> sortOrder) option \<Rightarrow> int option \<Rightarrow> 'a list \<Rightarrow> 'a list" where
  "findManyRows cond orderBy n rows = takeRows n (orderRows orderBy (filter cond rows))"

definition findFirstRows ::
  "('a \<Rightarrow> bool) \<Rightarrow> (('a \<Rightarrow> int) \<times> sortOrder) option \<Rightarrow> 'a list \<Rightarrow> 'a option" where
  "findFirstRows cond orderBy rows =
     (case orderRows orderBy (filter cond rows) of [] \<Rightarrow> None | r # rest \<Rightarrow> Some r)"

text \<open>The number of rows a \<open>deleteMany\<close> removes.\<close>

definition countRows :: "('a \<Rightarrow> bool) \<Rightarrow> 'a list \<Rightarrow> nat" where
  "countRows cond rows = length (filter cond rows)"

definition reject :: "string \<Rightarrow> db \<Rightarrow> (thrown + 'a) \<times> db" where
  "reject code s = (Inl (PrismaError code), s)"

subsection \<open>The operations of the Prisma client\<close>

text \<open>
  A \<open>where\<close> argument is the predicate it denotes. Keys and references are those of the
  schema: a duplicate primary or unique key is rejected (P2002), as is a reference to a
  missing row (P2003) and an update or delete of a row that does not exist (P2025). Deleting
  a row deletes the rows that refer to it with \<open>onDelete: Cascade\<close>.
\<close>

definition user_findMany :: "(user \<Rightarrow> bool) \<Rightarrow> user list io" where
  "user_findMany cond = prisma (\<lambda>s. (Inr (findManyRows cond None None (db_users s)), s))"

definition user_create :: "user \<Rightarrow> user io" where
  "user_create row =
     prisma (\<lambda>s.
       if list_ex (\<lambda>u. User_id u = User_id row \<or> User_username u = User_username row
                        \<or> (User_email row \<noteq> None \<and> User_email u = User_email row)) (db_users s)
       then reject ''P2002'' s
       else (Inr row, s\<lparr>db_users := db_users s @ [row]\<rparr>))"

definition chat_create :: "chat \<Rightarrow> chat io" where
  "chat_create row =
     prisma (\<lambda>s.
       if list_ex (\<lambda>c. Chat_id c = Chat_id row) (db_chats s) then reject ''P2002'' s
       else if \<not> list_ex (\<lambda>u. User_id u = Chat_userId row) (db_users s) then reject ''P2003'' s
       else (Inr row, s\<lparr>db_chats := db_chats s @ [row]\<rparr>))"

definition chat_findMany ::
  "(chat \<Rightarrow> bool) \<Rightarrow> ((chat \<Rightarrow> int) \<times> sortOrder) option \<Rightarrow> int option \<Rightarrow> chat list io" where
  "chat_findMany cond orderBy n =
     prisma (\<lambda>s. (Inr (findManyRows cond orderBy n (db_chats s)), s))"

definition chat_findFirst :: "(chat \<Rightarrow> bool) \<Rightarrow> chat option io" where
  "chat_findFirst cond = prisma (\<lambda>s. (Inr (findFirstRows cond None (db_chats s)), s))"

definition chat_update :: "string \<Rightarrow> (chat \<Rightarrow> chat) \<Rightarrow> chat io" where
  "chat_update chat_id change =
     prisma (\<lambda>s.
       case findFirstRows (\<lambda>c. Chat_id c = chat_id) None (db_chats s) of
         None \<Rightarrow> reject ''P2025'' s
       | Some c \<Rightarrow>
           (Inr (change c),
            s\<lparr>db_chats := map (\<lambda>x. if Chat_id x = chat_id then change x else x) (db_chats s)\<rparr>))"

text \<open>Deleting a chat takes its messages, votes and streams along, and the votes of those messages.\<close>

definition chat_delete :: "string \<Rightarrow> chat io" where
  "chat_delete chat_id =
     prisma (\<lambda>s.
       case findFirstRows (\<lambda>c. Chat_id c = chat_id) None (db_chats s) of
         None \<Rightarrow> reject ''P2025'' s
       | Some c \<Rightarrow>
           (Inr c,
            s\<lparr>db_chats := filter (\<lambda>x. Chat_id x \<noteq> chat_id) (db_chats s),
              db_messages := filter (\<lambda>m. Message_chatId m \<noteq> chat_id) (db_messages s),
              db_votes := filter (\<lambda>v. Vote_chatId v \<noteq> chat_id
                  \<and> \<not> list_ex (\<lambda>m. Message_chatId m = chat_id \<and> Message_id m = Vote_messageId v)
                        (db_messages s)) (db_votes s),
              db_streams := filter (\<lambda>t. Stream_chatId t \<noteq> chat_id) (db_streams s)\<rparr>))"

definition message_createMany :: "message list \<Rightarrow> nat io" where
  "message_createMany rows =
     prisma (\<lambda>s.
       if \<not> distinct (map Message_id rows)
          \<or> list_ex (\<lambda>m. Message_id m \<in> set (map Message_id rows)) (db_messages s)
       then reject ''P2002'' s
       else if \<not> list_all (\<lambda>m. list_ex (\<lambda>c. Chat_id c = Message_chatId m) (db_chats s)) rows
       then reject ''P2003'' s
       else (Inr (length rows), s\<lparr>db_messages := db_messages s @ rows\<rparr>))"

definition message_findMany ::
  "(message \<Rightarrow> bool) \<Rightarrow> ((message \<Rightarrow> int) \<times> sortOrder) option \<Rightarrow> message list io" where
  "message_findMany cond orderBy =
     prisma (\<lambda>s. (Inr (findManyRows cond orderBy None (db_messages s)), s))"

definition message_findFirst :: "(message \<Rightarrow> bool) \<Rightarrow> message option io" where
  "message_findFirst cond = prisma (\<lambda>s. (Inr (findFirstRows cond None (db_messages s)), s))"

text \<open>The condition of \<open>count\<close> may look at the message's chat (\<open>chat: { userId }\<close>).\<close>

definition message_count :: "(chat list \<Rightarrow> message \<Rightarrow> bool) \<Rightarrow> nat io" where
  "message_count cond = prisma (\<lambda>s. (Inr (countRows (cond (db_chats s)) (db_messages s)), s))"

text \<open>Deleting messages takes their votes along.\<close>

definition message_deleteMany :: "(message \<Rightarrow> bool) \<Rightarrow> nat io" where
  "message_deleteMany cond =
     prisma (\<lambda>s.
       (Inr (countRows cond (db_messages s)),
        s\<lparr>db_messages := filter (\<lambda>m. \<not> cond m) (db_messages s),
          db_votes := filter (\<lambda>v. \<not> list_ex (\<lambda>m. cond m \<and> Message_id m = Vote_messageId v)
                                     (db_messages s)) (db_votes s)\<rparr>))"

definition vote_findFirst :: "(vote \<Rightarrow> bool) \<Rightarrow> vote option io" where
  "vote_findFirst cond = prisma (\<lambda>s. (Inr (findFirstRows cond None (db_votes s)), s))"

definition vote_findMany :: "(vote \<Rightarrow> bool) \<Rightarrow> vote list io" where
  "vote_findMany cond = prisma (\<lambda>s. (Inr (findManyRows cond None None (db_votes s)), s))"

text \<open>The key of a vote, \<open>@@id([chatId, messageId, userId])\<close>.\<close>

definition vote_key :: "vote \<Rightarrow> string \<times> string \<times> string" where
  "vote_key v = (Vote_chatId v, Vote_messageId v, Vote_userId v)"

text \<open>\<open>update\<close> with \<open>where: { chatId_messageId_userId: ... }\<close>.\<close>

definition vote_update :: "string \<times> string \<times> string \<Rightarrow> (vote \<Rightarrow> vote) \<Rightarrow> vote io" where
  "vote_update key change =
     prisma (\<lambda>s.
       case findFirstRows (\<lambda>v. vote_key v = key) None (db_votes s) of
         None \<Rightarrow> reject ''P2025'' s
       | Some v \<Rightarrow>
           (Inr (change v),
            s\<lparr>db_votes := map (\<lambda>x. if vote_key x = key then change x else x) (db_votes s)\<rparr>))"

definition vote_create :: "vote \<Rightarrow> vote io" where
  "vote_create row =
     prisma (\<lambda>s.
       if list_ex (\<lambda>v. vote_key v = vote_key row) (db_votes s) then reject ''P2002'' s
       else if \<not> (list_ex (\<lambda>c. Chat_id c = Vote_chatId row) (db_chats s)
                 \<and> list_ex (\<lambda>m. Message_id m = Vote_messageId row) (db_messages s)
                 \<and> list_ex (\<lambda>u. User_id u = Vote_userId row) (db_users s))
       then reject ''P2003'' s
       else (Inr row, s\<lparr>db_votes := db_votes s @ [row]\<rparr>))"

definition vote_deleteMany :: "(vote \<Rightarrow> bool) \<Rightarrow> nat io" where
  "vote_deleteMany cond =
     prisma (\<lambda>s.
       (Inr (countRows cond (db_votes s)),
        s\<lparr>db_votes := filter (\<lambda>v. \<not> cond v) (db_votes s)\<rparr>))"

definition stream_create :: "stream \<Rightarrow> stream io" where
  "stream_create row =
     prisma (\<lambda>s.
       if list_ex (\<lambda>t. Stream_id t = Stream_id row) (db_streams s) then reject ''P2002'' s
       else if \<not> list_ex (\<lambda>c. Chat_id c = Stream_chatId row) (db_chats s) then reject ''P2003'' s
       else (Inr row, s\<lparr>db_streams := db_streams s @ [row]\<rparr>))"

definition stream_findMany ::
  "(stream \<Rightarrow> bool) \<Rightarrow> ((stream \<Rightarrow> int) \<times> sortOrder) option \<Rightarrow> stream list io" where
  "stream_findMany cond orderBy =
     prisma (\<lambda>s. (Inr (findManyRows cond orderBy None (db_streams s)), s))"

definition stream_deleteMany :: "(stream \<Rightarrow> bool) \<Rightarrow> nat io" where
  "stream_deleteMany cond =
     prisma (\<lambda>s.
       (Inr (countRows cond (db_streams s)),
        s\<lparr>db_streams := filter (\<lambda>t. \<not> cond t) (db_streams s)\<rparr>))"

definition document_create :: "document \<Rightarrow> document io" where
  "document_create row =
     prisma (\<lambda>s.
       if list_ex (\<lambda>d. Document_id d = Document_id row) (db_documents s) then reject ''P2002'' s
       else if \<not> list_ex (\<lambda>u. User_id u = Document_userId row) (db_users s) then reject ''P2003'' s
       else (Inr row, s\<lparr>db_documents := db_documents s @ [row]\<rparr>))"

definition document_findMany ::
  "(document \<Rightarrow> bool) \<Rightarrow> ((document \<Rightarrow> int) \<times> sortOrder) option \<Rightarrow> document list io" where
  "document_findMany cond orderBy =
     prisma (\<lambda>s. (Inr (findManyRows cond orderBy None (db_documents s)), s))"

definition document_findFirst ::
  "(document \<Rightarrow> bool) \<Rightarrow> ((document \<Rightarrow> int) \<times> sortOrder) option \<Rightarrow> document option io" where
  "document_findFirst cond orderBy =
     prisma (\<lambda>s. (Inr (findFirstRows cond orderBy (db_documents s)), s))"

text \<open>Deleting documents takes their suggestions along.\<close>

definition document_deleteMany :: "(document \<Rightarrow> bool) \<Rightarrow> nat io" where
  "document_deleteMany cond =
     prisma (\<lambda>s.
       (Inr (countRows cond (db_documents s)),
        s\<lparr>db_documents := filter (\<lambda>d. \<not> cond d) (db_documents s),
          db_suggestions := filter (\<lambda>g. \<not> list_ex (\<lambda>d. cond d \<and> Document_id d = Suggestion_documentId g)
                                           (db_documents s)) (db_suggestions s)\<rparr>))"

definition suggestion_createMany :: "suggestion list \<Rightarrow> nat io" where
  "suggestion_createMany rows =
     prisma (\<lambda>s.
       if \<not> distinct (map Suggestion_id rows)
          \<or> list_ex (\<lambda>g. Suggestion_id g \<in> set (map Suggestion_id rows)) (db_suggestions s)
       then reject ''P2002'' s
       else if \<not> list_all (\<lambda>g. list_ex (\<lambda>d. Document_id d = Suggestion_documentId g) (db_documents s)
                               \<and> list_ex (\<lambda>u. User_id u = Suggestion_userId g) (db_users s)) rows
       then reject ''P2003'' s
       else (Inr (length rows), s\<lparr>db_suggestions := db_suggestions s @ rows\<rparr>))"

definition suggestion_findMany :: "(suggestion \<Rightarrow> bool) \<Rightarrow> suggestion list io" where
  "suggestion_findMany cond =
     prisma (\<lambda>s. (Inr (findManyRows cond None None (db_suggestions s)), s))"

definition suggestion_deleteMany :: "(suggestion \<Rightarrow> bool) \<Rightarrow> nat io" where
  "suggestion_deleteMany cond =
     prisma (\<lambda>s.
       (Inr (countRows cond (db_suggestions s)),
        s\<lparr>db_suggestions := filter (\<lambda>g. \<not> cond g) (db_suggestions s)\<rparr>))"

section \<open>The query module (src/components/diffview.tsx, third file)\<close>

text \<open>
  Every function is \<open>try { ... } catch (error) { throw new ChatSDKError(...) }\<close> around its
  Prisma calls. The clock (\<open>Date.now()\<close>, \<open>new Date()\<close>), fresh UUIDs and the password hash
  (\<open>generateUUID\<close>, \<open>generateHashedPassword\<close>, from modules outside the sources) are arguments.
\<close>

definition getUser :: "string \<Rightarrow> user list io" where
  "getUser email =
     try_catch (user_findMany (\<lambda>u. User_email u = Some email))
       (\<lambda>error. io_throw (ChatSDKError ''bad_request:database'' (Some ''Failed to get user by email'')))"

definition createUser ::
  "(string \<Rightarrow> string) \<Rightarrow> string \<Rightarrow> int \<Rightarrow> string \<Rightarrow> string \<Rightarrow> user io" where
  "createUser generateHashedPassword uuid now email password =
     (let hashedPassword = generateHashedPassword password;
          userId = uuid;
          username = takeWhile (\<lambda>c. c \<noteq> CHR ''@'') email @ ''_'' @ string_of_int now
      in try_catch
           (user_create \<lparr>User_id = userId, User_username = username, User_email = Some email,
                         User_password_hash = Some hashedPassword\<rparr>)
           (\<lambda>error. io_throw (ChatSDKError ''bad_request:database'' (Some ''Failed to create user''))))"

text \<open>The columns \<open>createGuestUser\<close> selects.\<close>

record guestUser =
  Guest_id :: string
  Guest_email :: "string option"
  Guest_username :: string

definition createGuestUser ::
  "(string \<Rightarrow> string) \<Rightarrow> string \<Rightarrow> string \<Rightarrow> int \<Rightarrow> int \<Rightarrow> guestUser list io" where
  "createGuestUser generateHashedPassword uuid1 uuid2 now1 now2 =
     (let userId = uuid1;
          email = ''guest-'' @ string_of_int now1 @ ''@example.com'';
          username = ''guest_'' @ string_of_int now2;
          hashedPassword = generateHashedPassword uuid2
      in try_catch
           (io_bind
              (user_create \<lparr>User_id = userId, User_username = username, User_email = Some email,
                            User_password_hash = Some hashedPassword\<rparr>)
              (\<lambda>u. io_return
                 [\<lparr>Guest_id = User_id u, Guest_email = User_email u, Guest_username = User_username u\<rparr>]))
           (\<lambda>error. io_throw (ChatSDKError ''bad_request:database'' (Some ''Failed to create guest user''))))"

definition saveChat :: "int \<Rightarrow> string \<Rightarrow> string \<Rightarrow> string \<Rightarrow> visibilityType \<Rightarrow> chat io" where
  "saveChat now chat_id userId title visibility =
     try_catch
       (chat_create \<lparr>Chat_id = chat_id, Chat_userId = userId, Chat_title = Some title,
                     Chat_visibility = visibility, Chat_createdAt = now\<rparr>)
       (\<lambda>error. io_throw (ChatSDKError ''bad_request:database'' (Some ''Failed to save chat'')))"

definition deleteChatById :: "string \<Rightarrow> chat io" where
  "deleteChatById chat_id =
     try_catch
       (io_bind (vote_deleteMany (\<lambda>v. Vote_chatId v = chat_id)) (\<lambda>r1.
        io_bind (message_deleteMany (\<lambda>m. Message_chatId m = chat_id)) (\<lambda>r2.
        io_bind (stream_deleteMany (\<lambda>t. Stream_chatId t = chat_id)) (\<lambda>r3.
        io_bind (chat_delete chat_id) (\<lambda>chatsDeleted.
        io_return chatsDeleted)))))
       (\<lambda>error. io_throw (ChatSDKError ''bad_request:database'' (Some ''Failed to delete chat by id'')))"

text \<open>
  The inner \<open>query(whereCondition)\<close> of \<open>getChatsByUserId\<close>: the user's chats that meet the
  extra condition, newest first, at most \<open>extendedLimit\<close> of them.
\<close>

definition chats_query :: "string \<Rightarrow> int \<Rightarrow> (chat \<Rightarrow> bool) \<Rightarrow> chat list io" where
  "chats_query user_id extendedLimit whereCondition =
     chat_findMany (\<lambda>c. Chat_userId c = user_id \<and> whereCondition c)
       (Some (Chat_createdAt, Desc)) (Some extendedLimit)"

text \<open>
  The first part of the body of \<open>getChatsByUserId\<close>, up to the assignment of
  \<open>filteredChats\<close>: \<open>extendedLimit\<close> and the query whose cursor is \<open>startingAfter\<close>,
  \<open>endingBefore\<close> or none.
\<close>

definition fetchChats ::
  "string \<Rightarrow> int \<Rightarrow> string option \<Rightarrow> string option \<Rightarrow> chat list io" where
  "fetchChats user_id limit startingAfter endingBefore =
     (let extendedLimit = limit + 1 in
      case if_truthy startingAfter of
        Some sa \<Rightarrow>
          io_bind (chat_findFirst (\<lambda>c. Chat_id c = sa)) (\<lambda>selectedChat.
            case selectedChat of
              None \<Rightarrow>
                io_throw (ChatSDKError ''not_found:database''
                            (Some (''Chat with id '' @ sa @ '' not found'')))
            | Some sel \<Rightarrow>
                chats_query user_id extendedLimit (\<lambda>c. Chat_createdAt c > Chat_createdAt sel))
      | None \<Rightarrow>
          (case if_truthy endingBefore of
             Some eb \<Rightarrow>
               io_bind (chat_findFirst (\<lambda>c. Chat_id c = eb)) (\<lambda>selectedChat.
                 case selectedChat of
                   None \<Rightarrow>
                     io_throw (ChatSDKError ''not_found:database''
                                 (Some (''Chat with id '' @ eb @ '' not found'')))
                 | Some sel \<Rightarrow>
                     chats_query user_id extendedLimit (\<lambda>c. Chat_createdAt c < Chat_createdAt sel))
           | None \<Rightarrow> chats_query user_id extendedLimit (\<lambda>c. True)))"

text \<open>The whole function: the fetch, then \<open>hasMore\<close> and the page, all inside the \<open>try\<close>.\<close>

definition getChatsByUserId ::
  "string \<Rightarrow> int \<Rightarrow> string option \<Rightarrow> string option \<Rightarrow> (chat list \<times> bool) io" where
  "getChatsByUserId user_id limit startingAfter endingBefore =
     try_catch
       (io_bind (fetchChats user_id limit startingAfter endingBefore)
          (\<lambda>filteredChats.
             let hasMore = (int (length filteredChats) > limit) in
             io_return (if hasMore then slice0 limit filteredChats else filteredChats, hasMore)))
       (\<lambda>error. io_throw (ChatSDKError ''bad_request:database'' (Some ''Failed to get chats by user id'')))"

definition getChatById :: "string \<Rightarrow> chat option io" where
  "getChatById chat_id =
     try_catch
       (io_bind (chat_findFirst (\<lambda>c. Chat_id c = chat_id)) (\<lambda>selectedChat. io_return selectedChat))
       (\<lambda>error. io_throw (ChatSDKError ''bad_request:database'' (Some ''Failed to get chat by id'')))"

definition saveMessages :: "message list \<Rightarrow> nat io" where
  "saveMessages msgs =
     try_catch (message_createMany msgs)
       (\<lambda>error. io_throw (ChatSDKError ''bad_request:database'' (Some ''Failed to save messages'')))"

definition getMessagesByChatId :: "string \<Rightarrow> message list io" where
  "getMessagesByChatId chat_id =
     try_catch
       (message_findMany (\<lambda>m. Message_chatId m = chat_id) (Some (Message_createdAt, Asc)))
       (\<lambda>error. io_throw (ChatSDKError ''bad_request:database'' (Some ''Failed to get messages by chat id'')))"

datatype voteType = Up | Down

definition voteMessage :: "string \<Rightarrow> string \<Rightarrow> string \<Rightarrow> voteType \<Rightarrow> vote io" where
  "voteMessage chatId messageId userId type =
     try_catch
       (io_bind
          (vote_findFirst (\<lambda>v. Vote_chatId v = chatId \<and> Vote_messageId v = messageId
                                \<and> Vote_userId v = userId))
          (\<lambda>existingVote.
             case existingVote of
               Some ev \<Rightarrow>
                 vote_update (chatId, messageId, userId) (\<lambda>v. v\<lparr>Vote_isUpvoted := (type = Up)\<rparr>)
             | None \<Rightarrow>
                 vote_create \<lparr>Vote_chatId = chatId, Vote_messageId = messageId,
                              Vote_userId = userId, Vote_isUpvoted = (type = Up)\<rparr>))
       (\<lambda>error. io_throw (ChatSDKError ''bad_request:database'' (Some ''Failed to vote message'')))"

definition getVotesByChatId :: "string \<Rightarrow> vote list io" where
  "getVotesByChatId chat_id =
     try_catch (vote_findMany (\<lambda>v. Vote_chatId v = chat_id))
       (\<lambda>error. io_throw (ChatSDKError ''bad_request:database'' (Some ''Failed to get votes by chat id'')))"

definition saveDocument ::
  "int \<Rightarrow> string \<Rightarrow> string \<Rightarrow> artifactKind \<Rightarrow> string \<Rightarrow> string \<Rightarrow> document list io" where
  "saveDocument now doc_id title kind content userId =
     try_catch
       (io_bind
          (document_create \<lparr>Document_id = doc_id, Document_userId = userId,
                             Document_title = Some title, Document_content = Some content,
                             Document_kind = kind, Document_createdAt = now\<rparr>)
          (\<lambda>document. io_return [document]))
       (\<lambda>error. io_throw (ChatSDKError ''bad_request:database'' (Some ''Failed to save document'')))"

definition getDocumentsById :: "string \<Rightarrow> document list io" where
  "getDocumentsById doc_id =
     try_catch
       (io_bind
          (document_findMany (\<lambda>d. Document_id d = doc_id) (Some (Document_createdAt, Asc)))
          (\<lambda>documents. io_return documents))
       (\<lambda>error. io_throw (ChatSDKError ''bad_request:database'' (Some ''Failed to get documents by id'')))"

definition getDocumentById :: "string \<Rightarrow> document option io" where
  "getDocumentById doc_id =
     try_catch
       (io_bind
          (document_findFirst (\<lambda>d. Document_id d = doc_id) (Some (Document_createdAt, Desc)))
          (\<lambda>selectedDocument. io_return selectedDocument))
       (\<lambda>error. io_throw (ChatSDKError ''bad_request:database'' (Some ''Failed to get document by id'')))"

definition deleteDocumentsByIdAfterTimestamp :: "string \<Rightarrow> int \<Rightarrow> document list io" where
  "deleteDocumentsByIdAfterTimestamp doc_id timestamp =
     try_catch
       (io_bind
          (suggestion_deleteMany
             (\<lambda>g. Suggestion_documentId g = doc_id \<and> Suggestion_createdAt g > timestamp)) (\<lambda>r1.
        io_bind
          (document_findMany (\<lambda>d. Document_id d = doc_id \<and> Document_createdAt d > timestamp) None)
          (\<lambda>deletedDocs.
        io_bind
          (document_deleteMany (\<lambda>d. Document_id d = doc_id \<and> Document_createdAt d > timestamp)) (\<lambda>r2.
        io_return deletedDocs))))
       (\<lambda>error. io_throw (ChatSDKError ''bad_request:database''
                            (Some ''Failed to delete documents by id after timestamp'')))"

definition saveSuggestions :: "suggestion list \<Rightarrow> nat io" where
  "saveSuggestions suggs =
     try_catch (suggestion_createMany suggs)
       (\<lambda>error. io_throw (ChatSDKError ''bad_request:database'' (Some ''Failed to save suggestions'')))"

definition getSuggestionsByDocumentId :: "string \<Rightarrow> suggestion list io" where
  "getSuggestionsByDocumentId documentId =
     try_catch (suggestion_findMany (\<lambda>g. Suggestion_documentId g = documentId))
       (\<lambda>error. io_throw (ChatSDKError ''bad_request:database''
                            (Some ''Failed to get suggestions by document id'')))"

definition getMessageById :: "string \<Rightarrow> message option io" where
  "getMessageById message_id =
     try_catch (message_findFirst (\<lambda>m. Message_id m = message_id))
       (\<lambda>error. io_throw (ChatSDKError ''bad_request:database'' (Some ''Failed to get message by id'')))"

text \<open>The result \<open>None\<close> is \<open>undefined\<close>: the function falls off its end when no message matches.\<close>

definition deleteMessagesByChatIdAfterTimestamp :: "string \<Rightarrow> int \<Rightarrow> nat option io" where
  "deleteMessagesByChatIdAfterTimestamp chatId timestamp =
     try_catch
       (io_bind
          (message_findMany (\<lambda>m. Message_chatId m = chatId \<and> Message_createdAt m \<ge> timestamp) None)
          (\<lambda>messagesToDelete.
             let messageIds = map Message_id messagesToDelete in
             if length messageIds > 0 then
               io_bind
                 (vote_deleteMany (\<lambda>v. Vote_chatId v = chatId \<and> Vote_messageId v \<in> set messageIds))
                 (\<lambda>r1.
               io_bind
                 (message_deleteMany (\<lambda>m. Message_chatId m = chatId \<and> Message_id m \<in> set messageIds))
                 (\<lambda>deleted. io_return (Some deleted)))
             else io_return None))
       (\<lambda>error. io_throw (ChatSDKError ''bad_request:database''
                            (Some ''Failed to delete messages by chat id after timestamp'')))"

definition updateChatVisiblityById :: "string \<Rightarrow> visibilityType \<Rightarrow> chat io" where
  "updateChatVisiblityById chatId visibility =
     try_catch (chat_update chatId (\<lambda>c. c\<lparr>Chat_visibility := visibility\<rparr>))
       (\<lambda>error. io_throw (ChatSDKError ''bad_request:database''
                            (Some ''Failed to update chat visibility by id'')))"

text \<open>
  \<open>new Date(ms)\<close> is a valid date only within 8.64e15 milliseconds of the epoch; an invalid
  one is refused by the Prisma client before any query is sent.
\<close>

definition valid_time :: "int \<Rightarrow> bool" where
  "valid_time ms = (- 8640000000000000 \<le> ms \<and> ms \<le> 8640000000000000)"

definition getMessageCountByUserId :: "int \<Rightarrow> string \<Rightarrow> int \<Rightarrow> nat io" where
  "getMessageCountByUserId now user_id differenceInHours =
     try_catch
       (let twentyFourHoursAgo = now - differenceInHours * 60 * 60 * 1000 in
        if \<not> valid_time twentyFourHoursAgo
        then io_throw (PrismaError ''PrismaClientValidationError'')
        else
          io_bind
            (message_count (\<lambda>chats m.
               list_ex (\<lambda>c. Chat_id c = Message_chatId m \<and> Chat_userId c = user_id) chats
               \<and> Message_createdAt m \<ge> twentyFourHoursAgo
               \<and> Message_role m = ''user''))
            (\<lambda>stats. io_return stats))
       (\<lambda>error. io_throw (ChatSDKError ''bad_request:database''
                            (Some ''Failed to get message count by user id'')))"

definition createStreamId :: "int \<Rightarrow> string \<Rightarrow> string \<Rightarrow> unit io" where
  "createStreamId now streamId chatId =
     try_catch
       (io_bind
          (stream_create \<lparr>Stream_id = streamId, Stream_chatId = chatId, Stream_createdAt = now\<rparr>)
          (\<lambda>r. io_return ()))
       (\<lambda>error. io_throw (ChatSDKError ''bad_request:database'' (Some ''Failed to create stream id'')))"

definition getStreamIdsByChatId :: "string \<Rightarrow> string list io" where
  "getStreamIdsByChatId chatId =
     try_catch
       (io_bind
          (stream_findMany (\<lambda>t. Stream_chatId t = chatId) (Some (Stream_createdAt, Asc)))
          (\<lambda>streamIds. io_return (map Stream_id streamIds)))
       (\<lambda>error. io_throw (ChatSDKError ''bad_request:database''
                            (Some ''Failed to get stream ids by chat id'')))"

section \<open>The document-versions route (GET, src/app/page.tsx)\<close>

text \<open>A JSON value, as stored in a \<open>Json\<close> column; an object is the list of its members.\<close>

datatype json =
  JsonNull | JsonBool bool | JsonNum int | JsonStr string
| JsonArr "json list" | JsonObj "(string \<times> json) list"

fun json_truthy :: "json \<Rightarrow> bool" where
  "json_truthy JsonNull = False"
| "json_truthy (JsonBool b) = b"
| "json_truthy (JsonNum n) = (n \<noteq> 0)"
| "json_truthy (JsonStr s) = (s \<noteq> [])"
| "json_truthy (JsonArr xs) = True"
| "json_truthy (JsonObj kvs) = True"

text \<open>
  \<open>value?.content\<close> on a nullable column: \<open>None\<close> is \<open>undefined\<close>, the result on \<open>null\<close>, on
  an object without the member, and on a value that is not an object.
\<close>

fun optional_content :: "json option \<Rightarrow> json option" where
  "optional_content None = None"
| "optional_content (Some (JsonObj kvs)) = map_of kvs ''content''"
| "optional_content (Some v) = None"

text \<open>\<open>value || ''\<close>.\<close>

definition or_empty :: "json option \<Rightarrow> json" where
  "or_empty v = (case v of None \<Rightarrow> JsonStr [] | Some j \<Rightarrow> if json_truthy j then j else JsonStr [])"

record documentVersion =
  Version_id :: string
  Version_documentId :: string
  Version_userId :: string
  Version_title :: "string option"
  Version_contentRich :: "json option"
  Version_createdAt :: int
  Version_updatedAt :: int

text \<open>A stored version in document format, and an element of the array the route answers with.\<close>

record versionDocument =
  vd_id :: string
  vd_title :: "string option"
  vd_content :: json
  vd_kind :: artifactKind
  vd_userId :: string
  vd_createdAt :: int
  vd_updatedAt :: int

datatype versionEntry = FromVersion versionDocument | Current document

definition toVersionDocument :: "document \<Rightarrow> documentVersion \<Rightarrow> versionDocument" where
  "toVersionDocument document version =
     \<lparr>vd_id = Version_documentId version,
      vd_title = (case if_truthy (Version_title version) of
                    Some t \<Rightarrow> Some t
                  | None \<Rightarrow> Document_title document),
      vd_content = or_empty (optional_content (Version_contentRich version)),
      vd_kind = Document_kind document,
      vd_userId = Version_userId version,
      vd_createdAt = Version_createdAt version,
      vd_updatedAt = Version_updatedAt version\<rparr>"

text \<open>The session \<open>auth()\<close> resolves to (\<open>None\<close> is \<open>null\<close>), and \<open>session?.user\<close>.\<close>

record sessionUser =
  SessionUser_id :: "string option"

record session =
  Session_user :: "sessionUser option"

definition session_user :: "session option \<Rightarrow> sessionUser option" where
  "session_user s = (case s of None \<Rightarrow> None | Some session \<Rightarrow> Session_user session)"

text \<open>
  The request, as the query parameters of its URL; \<open>searchParams.get(name)\<close> is the first
  value given for the name, or \<open>null\<close>.
\<close>

record request =
  searchParams :: "(string \<times> string) list"

text \<open>
  A response: \<open>new ChatSDKError(code, cause).toResponse()\<close>, or
  \<open>Response.json(body, { status })\<close>.
\<close>

datatype response = ErrorResponse string "string option" | JsonResponse nat "versionEntry list"

text \<open>
  The handler. \<open>getDocumentVersions\<close> is imported from the query module but is not among
  the sources; it is a parameter, as is the session that \<open>auth()\<close> gives.
\<close>

definition GET ::
  "session option \<Rightarrow> (string \<Rightarrow> documentVersion list io) \<Rightarrow> request \<Rightarrow> response io" where
  "GET auth getDocumentVersions req =
     (case if_truthy (map_of (searchParams req) ''documentId'') of
        None \<Rightarrow>
          io_return (ErrorResponse ''bad_request:api'' (Some ''Parameter documentId is missing''))
      | Some documentId \<Rightarrow>
          (case session_user auth of
             None \<Rightarrow> io_return (ErrorResponse ''unauthorized:document'' None)
           | Some user \<Rightarrow>
               io_bind (getDocumentById documentId) (\<lambda>document.
                 case document of
                   None \<Rightarrow> io_return (ErrorResponse ''not_found:document'' None)
                 | Some doc \<Rightarrow>
                     if Some (Document_userId doc) \<noteq> SessionUser_id user
                     then io_return (ErrorResponse ''forbidden:document'' None)
                     else
                       io_bind (getDocumentVersions documentId) (\<lambda>versions.
                         let versionDocuments = map (toVersionDocument doc) versions;
                             allVersions = map FromVersion versionDocuments @ [Current doc]
                         in io_return (JsonResponse 200 allVersions)))))"

text \<open>The document \<open>getDocumentById\<close> finds: the newest row with the id.\<close>

definition stored_document :: "db \<Rightarrow> string \<Rightarrow> document option" where
  "stored_document s documentId =
     findFirstRows (\<lambda>d. Document_id d = documentId) (Some (Document_createdAt, Desc)) (db_documents s)"

section \<open>Auxiliary notions and example data\<close>

text \<open>The fate of the next Prisma call, and the state once that call has used it up.\<close>

definition fate :: "db \<Rightarrow> string option" where
  "fate s = (case db_faults s of [] \<Rightarrow> None | f # rest \<Rightarrow> f)"

definition advance :: "db \<Rightarrow> db" where
  "advance s = s\<lparr>db_faults := tl (db_faults s)\<rparr>"

text \<open>
  The chats a call of \<open>getChatsByUserId\<close> is about: those of the user that lie on the asked
  side of the cursor chat, newest first. A truthy \<open>startingAfter\<close> is the cursor, else a
  truthy \<open>endingBefore\<close>; without a cursor all chats of the user match.
\<close>

definition cursor_condition :: "db \<Rightarrow> string option \<Rightarrow> string option \<Rightarrow> chat \<Rightarrow> bool" where
  "cursor_condition s startingAfter endingBefore c =
     (case if_truthy startingAfter of
        Some sa \<Rightarrow>
          (case findFirstRows (\<lambda>x. Chat_id x = sa) None (db_chats s) of
             None \<Rightarrow> False
           | Some sel \<Rightarrow> Chat_createdAt c > Chat_createdAt sel)
      | None \<Rightarrow>
          (case if_truthy endingBefore of
             Some eb \<Rightarrow>
               (case findFirstRows (\<lambda>x. Chat_id x = eb) None (db_chats s) of
                  None \<Rightarrow> False
                | Some sel \<Rightarrow> Chat_createdAt c < Chat_createdAt sel)
           | None \<Rightarrow> True))"

definition matching_chats :: "db \<Rightarrow> string \<Rightarrow> string option \<Rightarrow> string option \<Rightarrow> chat list" where
  "matching_chats s user_id startingAfter endingBefore =
     sort_key (\<lambda>c. - Chat_createdAt c)
       (filter (\<lambda>c. Chat_userId c = user_id \<and> cursor_condition s startingAfter endingBefore c)
          (db_chats s))"

text \<open>A small database: two users, four chats, three messages, one vote, one document.\<close>

definition example_chat :: "string \<Rightarrow> string \<Rightarrow> int \<Rightarrow> chat" where
  "example_chat chat_id user_id t =
     \<lparr>Chat_id = chat_id, Chat_userId = user_id, Chat_title = Some ''title'',
      Chat_visibility = Private, Chat_createdAt = t\<rparr>"

definition example_msg :: "string \<Rightarrow> string \<Rightarrow> string \<Rightarrow> int \<Rightarrow> message" where
  "example_msg message_id chat_id role t =
     \<lparr>Message_id = message_id, Message_chatId = chat_id, Message_role = role,
      Message_content = ''text'', Message_createdAt = t\<rparr>"

definition example_db :: db where
  "example_db =
     \<lparr>db_users =
        [\<lparr>User_id = ''u1'', User_username = ''ann'', User_email = Some ''ann@example.com'',
          User_password_hash = None\<rparr>,
         \<lparr>User_id = ''u2'', User_username = ''bob'', User_email = Some ''bob@example.com'',
          User_password_hash = None\<rparr>],
      db_chats =
        [example_chat ''c1'' ''u1'' 10, example_chat ''c2'' ''u1'' 20,
         example_chat ''c3'' ''u1'' 30, example_chat ''c4'' ''u2'' 25],
      db_messages =
        [example_msg ''m1'' ''c1'' ''user'' 11, example_msg ''m2'' ''c1'' ''assistant'' 12,
         example_msg ''m3'' ''c1'' ''user'' 13],
      db_votes =
        [\<lparr>Vote_chatId = ''c1'', Vote_messageId = ''m2'', Vote_userId = ''u1'',
          Vote_isUpvoted = False\<rparr>],
      db_streams = [],
      db_documents =
        [\<lparr>Document_id = ''d1'', Document_userId = ''u1'', Document_title = Some ''Notes'',
          Document_content = Some ''hello'', Document_kind = KindText, Document_createdAt = 5\<rparr>],
      db_suggestions = [],
      db_faults = []\<rparr>"

text \<open>The messages of a chat created at or after a time.\<close>

definition messages_from :: "db \<Rightarrow> string \<Rightarrow> int \<Rightarrow> message list" where
  "messages_from s chatId timestamp =
     filter (\<lambda>m. Message_chatId m = chatId \<and> Message_createdAt m \<ge> timestamp) (db_messages s)"

text \<open>Two stored versions of the example document, and a session of its owner.\<close>

definition example_versions :: "string \<Rightarrow> documentVersion list io" where
  "example_versions documentId =
     io_return
       [\<lparr>Version_id = ''v1'', Version_documentId = documentId, Version_userId = ''u1'',
         Version_title = None,
         Version_contentRich = Some (JsonObj [(''content'', JsonStr ''first draft'')]),
         Version_createdAt = 6, Version_updatedAt = 7\<rparr>,
        \<lparr>Version_id = ''v2'', Version_documentId = documentId, Version_userId = ''u1'',
         Version_title = Some ''Notes 2'', Version_contentRich = None,
         Version_createdAt = 8, Version_updatedAt = 9\<rparr>]"

definition example_session :: "session option" where
  "example_session = Some \<lparr>Session_user = Some \<lparr>SessionUser_id = Some ''u1''\<rparr>\<rparr>"

definition example_request :: "string \<Rightarrow> request" where
  "example_request documentId = \<lparr>searchParams = [(''documentId'', documentId)]\<rparr>"

section \<open>Properties\<close>

subsection \<open>The diff mark\<close>

text \<open>
  C1. A diff mark is rendered from its \<open>type\<close> attribute alone: two marks with the same
  \<open>type\<close> render alike; type \<open>DiffType.Inserted\<close> gives a span with class \<open>diff-inserted\<close> and
  \<open>data-diff='inserted'\<close> around the content, type \<open>DiffType.Deleted\<close> a span with class
  \<open>diff-deleted\<close> and \<open>data-diff='deleted'\<close>, and every other type a span without
  attributes; the default empty string is such a type. The enum members are distinct and
  none is the empty string.
\<close>

theorem toDOM_by_type:
  assumes "Inserted DiffType \<noteq> Deleted DiffType"
    and "Inserted DiffType \<noteq> JStr ''''"
    and "Deleted DiffType \<noteq> JStr ''''"
  shows "(attrs_type m = attrs_type m' \<longrightarrow> toDOM DiffType m = toDOM DiffType m')
    \<and> (attrs_type m = Inserted DiffType \<longrightarrow>
         toDOM DiffType m =
           DomElement ''span'' [(''class'', ''diff-inserted''), (''data-diff'', ''inserted'')] ContentHole)
    \<and> (attrs_type m = Deleted DiffType \<longrightarrow>
         toDOM DiffType m =
           DomElement ''span'' [(''class'', ''diff-deleted''), (''data-diff'', ''deleted'')] ContentHole)
    \<and> (attrs_type m \<noteq> Inserted DiffType \<and> attrs_type m \<noteq> Deleted DiffType \<longrightarrow>
         toDOM DiffType m = DomElement ''span'' [] ContentHole)
    \<and> (attrs_type m = diffMark_default_type \<longrightarrow>
         toDOM DiffType m = DomElement ''span'' [] ContentHole)"
  using assms by (auto simp: toDOM_def Let_def diffMark_default_type_def)

theorem toDOM_by_type_witness:
  "toDOM \<lparr>Inserted = JNum 1, Deleted = JNum (- 1)\<rparr>
      \<lparr>mark_name = ''diffMark'', attrs = [(''type'', JNum 1)]\<rparr>
     = DomElement ''span'' [(''class'', ''diff-inserted''), (''data-diff'', ''inserted'')] ContentHole
   \<and> toDOM \<lparr>Inserted = JNum 1, Deleted = JNum (- 1)\<rparr>
      \<lparr>mark_name = ''diffMark'', attrs = [(''type'', JNum (- 1))]\<rparr>
     = DomElement ''span'' [(''class'', ''diff-deleted''), (''data-diff'', ''deleted'')] ContentHole
   \<and> toDOM \<lparr>Inserted = JNum 1, Deleted = JNum (- 1)\<rparr>
      \<lparr>mark_name = ''diffMark'', attrs = [(''type'', JStr '''')]\<rparr>
     = DomElement ''span'' [] ContentHole"
  using
    toDOM_by_type [of "\<lparr>Inserted = JNum 1, Deleted = JNum (- 1)\<rparr>"
      "\<lparr>mark_name = ''diffMark'', attrs = [(''type'', JNum 1)]\<rparr>"]
    toDOM_by_type [of "\<lparr>Inserted = JNum 1, Deleted = JNum (- 1)\<rparr>"
      "\<lparr>mark_name = ''diffMark'', attrs = [(''type'', JNum (- 1))]\<rparr>"]
    toDOM_by_type [of "\<lparr>Inserted = JNum 1, Deleted = JNum (- 1)\<rparr>"
      "\<lparr>mark_name = ''diffMark'', attrs = [(''type'', JStr '''')]\<rparr>"]
  by (simp add: attrs_type_def diffMark_default_type_def)

subsection \<open>Decorations\<close>

lemma foldl_push_suggestion:
  "foldl (push_suggestion cw) acc ss = acc @ concat (map (push_suggestion cw []) ss)"
  by (induction ss arbitrary: acc) (simp_all add: push_suggestion_def)

lemma length_concat_pairs:
  "length (concat (map (push_suggestion cw []) ss)) = 2 * length ss"
  by (induction ss) (simp_all add: push_suggestion_def)

lemma nth_concat_pairs:
  "i < length ss \<Longrightarrow>
     concat (map (push_suggestion cw []) ss) ! (2 * i) = push_suggestion cw [] (ss ! i) ! 0
   \<and> concat (map (push_suggestion cw []) ss) ! (2 * i + 1) = push_suggestion cw [] (ss ! i) ! 1"
proof (induction ss arbitrary: i)
  case Nil
  then show ?case by simp
next
  case (Cons s ss)
  show ?case
  proof (cases i)
    case 0
    then show ?thesis by (simp add: push_suggestion_def)
  next
    case (Suc j)
    with Cons.prems have "j < length ss" by simp
    from Cons.IH [OF this] Suc show ?thesis
      by (simp add: push_suggestion_def)
  qed
qed

text \<open>
  C2. For \<open>n\<close> suggestions the decoration set is built, on the view's document, from exactly
  \<open>2 * n\<close> decorations: for the \<open>i\<close>-th suggestion an inline decoration from \<open>selectionStart\<close>
  to \<open>selectionEnd\<close> with class \<open>suggestion-highlight\<close> and the suggestion's id, followed by a
  widget decoration at \<open>selectionStart\<close> with the same id, whose DOM is the suggestion's widget.
\<close>

theorem createDecorations_two_per_suggestion:
  "createDecorations cw state_doc ss view
     = DecorationSet_create (state_doc view) (built_from (createDecorations cw state_doc ss view))
   \<and> length (built_from (createDecorations cw state_doc ss view)) = 2 * length ss
   \<and> (\<forall>i < length ss.
        built_from (createDecorations cw state_doc ss view) ! (2 * i)
          = Inline (selectionStart (ss ! i)) (selectionEnd (ss ! i))
              [(''class'', ''suggestion-highlight'')]
              \<lparr>suggestionId = UISuggestion_id (ss ! i), spec_type = ''highlight''\<rparr>
      \<and> built_from (createDecorations cw state_doc ss view) ! (2 * i + 1)
          = Widget (selectionStart (ss ! i)) (\<lambda>v. dom (cw (ss ! i) v))
              \<lparr>suggestionId = UISuggestion_id (ss ! i), spec_type = ''widget''\<rparr>)"
proof -
  have ds: "built_from (createDecorations cw state_doc ss view)
      = concat (map (push_suggestion cw []) ss)"
    by (simp add: createDecorations_def foldl_push_suggestion)
  have shape: "createDecorations cw state_doc ss view
      = DecorationSet_create (state_doc view) (built_from (createDecorations cw state_doc ss view))"
    by (simp add: createDecorations_def)
  have len: "length (concat (map (push_suggestion cw []) ss)) = 2 * length ss"
    by (rule length_concat_pairs)
  have nth: "concat (map (push_suggestion cw []) ss) ! (2 * i)
          = Inline (selectionStart (ss ! i)) (selectionEnd (ss ! i))
              [(''class'', ''suggestion-highlight'')]
              \<lparr>suggestionId = UISuggestion_id (ss ! i), spec_type = ''highlight''\<rparr>
      \<and> concat (map (push_suggestion cw []) ss) ! (2 * i + 1)
          = Widget (selectionStart (ss ! i)) (\<lambda>v. dom (cw (ss ! i) v))
              \<lparr>suggestionId = UISuggestion_id (ss ! i), spec_type = ''widget''\<rparr>"
    if "i < length ss" for i
    using nth_concat_pairs [OF that, of cw] by (simp add: push_suggestion_def)
  from shape len nth show ?thesis
    unfolding ds by blast
qed

theorem createDecorations_two_per_suggestion_witness:
  "built_from (createDecorations (\<lambda>s (v::unit). \<lparr>dom = UISuggestion_id s\<rparr>) (\<lambda>v. ''doc'')
      [\<lparr>UISuggestion_id = ''s1'', selectionStart = 3, selectionEnd = 8\<rparr>,
       \<lparr>UISuggestion_id = ''s2'', selectionStart = 10, selectionEnd = 12\<rparr>] ()) ! 2
     = Inline 10 12 [(''class'', ''suggestion-highlight'')]
         \<lparr>suggestionId = ''s2'', spec_type = ''highlight''\<rparr>
   \<and> length (built_from (createDecorations (\<lambda>s (v::unit). \<lparr>dom = UISuggestion_id s\<rparr>) (\<lambda>v. ''doc'')
      [\<lparr>UISuggestion_id = ''s1'', selectionStart = 3, selectionEnd = 8\<rparr>,
       \<lparr>UISuggestion_id = ''s2'', selectionStart = 10, selectionEnd = 12\<rparr>] ())) = 4"
proof -
  let ?ss = "[\<lparr>UISuggestion_id = ''s1'', selectionStart = 3, selectionEnd = 8\<rparr>,
       \<lparr>UISuggestion_id = ''s2'', selectionStart = 10, selectionEnd = 12\<rparr>]"
  have one: "(1::nat) < length ?ss" by simp
  from createDecorations_two_per_suggestion
    [of "\<lambda>s (v::unit). \<lparr>dom = UISuggestion_id s\<rparr>" "\<lambda>v. ''doc''" ?ss "()"]
  have len: "length (built_from (createDecorations (\<lambda>s (v::unit). \<lparr>dom = UISuggestion_id s\<rparr>)
        (\<lambda>v. ''doc'') ?ss ())) = 2 * length ?ss"
    and nth: "\<forall>i < length ?ss.
        built_from (createDecorations (\<lambda>s (v::unit). \<lparr>dom = UISuggestion_id s\<rparr>)
          (\<lambda>v. ''doc'') ?ss ()) ! (2 * i)
          = Inline (selectionStart (?ss ! i)) (selectionEnd (?ss ! i))
              [(''class'', ''suggestion-highlight'')]
              \<lparr>suggestionId = UISuggestion_id (?ss ! i), spec_type = ''highlight''\<rparr>"
    by blast+
  from nth one have "built_from (createDecorations (\<lambda>s (v::unit). \<lparr>dom = UISuggestion_id s\<rparr>)
          (\<lambda>v. ''doc'') ?ss ()) ! (2 * 1)
          = Inline (selectionStart (?ss ! 1)) (selectionEnd (?ss ! 1))
              [(''class'', ''suggestion-highlight'')]
              \<lparr>suggestionId = UISuggestion_id (?ss ! 1), spec_type = ''highlight''\<rparr>"
    by blast
  with len show ?thesis by simp
qed

subsection \<open>The migration script: order and sections\<close>


























subsection \<open>The query module: errors\<close>

lemma try_catch_rethrow:
  "fst (try_catch body (\<lambda>error. io_throw e0) s) = Inl e \<Longrightarrow> e = e0"
  by (auto simp: try_catch_def io_throw_def split: prod.splits sum.splits)

lemma advance_tables [simp]:
  "db_users (advance s) = db_users s" "db_chats (advance s) = db_chats s"
  "db_messages (advance s) = db_messages s" "db_votes (advance s) = db_votes s"
  "db_streams (advance s) = db_streams s" "db_documents (advance s) = db_documents s"
  "db_suggestions (advance s) = db_suggestions s"
  by (simp_all add: advance_def)

lemma prisma_step:
  "prisma operation s =
     (case fate s of
        Some e \<Rightarrow> (Inl (PrismaError e), advance s)
      | None \<Rightarrow> operation (advance s))"
proof (cases "db_faults s")
  case Nil
  then have "advance s = s" by (simp add: advance_def)
  with Nil show ?thesis by (simp add: prisma_def fate_def)
next
  case (Cons f rest)
  then show ?thesis by (cases f) (simp_all add: prisma_def fate_def advance_def)
qed

text \<open>
  C6. Whatever the database does, a function of the query module that fails, fails with
  its own \<open>ChatSDKError\<close> (code \<open>bad_request:database\<close> and the function's message): an error
  of a Prisma call never reaches the caller. And no error of a Prisma call is swallowed:
  for every Prisma call a function makes, the first as well as each later one in the state
  its predecessors have left, if that call throws, the function raises its \<open>ChatSDKError\<close>.
\<close>

theorem queries_raise_only_ChatSDKError:
  "(fst (getUser email s) = Inl e \<longrightarrow>
      e = ChatSDKError ''bad_request:database'' (Some ''Failed to get user by email''))
   \<and> (fst (createUser generateHashedPassword uuid now email password s) = Inl e \<longrightarrow>
      e = ChatSDKError ''bad_request:database'' (Some ''Failed to create user''))
   \<and> (fst (createGuestUser generateHashedPassword uuid uuid' now now' s) = Inl e \<longrightarrow>
      e = ChatSDKError ''bad_request:database'' (Some ''Failed to create guest user''))
   \<and> (fst (saveChat now chat_id user_id title visibility s) = Inl e \<longrightarrow>
      e = ChatSDKError ''bad_request:database'' (Some ''Failed to save chat''))
   \<and> (fst (deleteChatById chat_id s) = Inl e \<longrightarrow>
      e = ChatSDKError ''bad_request:database'' (Some ''Failed to delete chat by id''))
   \<and> (fst (getChatsByUserId user_id limit startingAfter endingBefore s) = Inl e \<longrightarrow>
      e = ChatSDKError ''bad_request:database'' (Some ''Failed to get chats by user id''))
   \<and> (fst (getChatById chat_id s) = Inl e \<longrightarrow>
      e = ChatSDKError ''bad_request:database'' (Some ''Failed to get chat by id''))
   \<and> (fst (saveMessages msgs s) = Inl e \<longrightarrow>
      e = ChatSDKError ''bad_request:database'' (Some ''Failed to save messages''))
   \<and> (fst (getMessagesByChatId chat_id s) = Inl e \<longrightarrow>
      e = ChatSDKError ''bad_request:database'' (Some ''Failed to get messages by chat id''))
   \<and> (fst (voteMessage chat_id message_id user_id vote_type s) = Inl e \<longrightarrow>
      e = ChatSDKError ''bad_request:database'' (Some ''Failed to vote message''))
   \<and> (fst (getVotesByChatId chat_id s) = Inl e \<longrightarrow>
      e = ChatSDKError ''bad_request:database'' (Some ''Failed to get votes by chat id''))
   \<and> (fst (saveDocument now doc_id title kind content user_id s) = Inl e \<longrightarrow>
      e = ChatSDKError ''bad_request:database'' (Some ''Failed to save document''))
   \<and> (fst (getDocumentsById doc_id s) = Inl e \<longrightarrow>
      e = ChatSDKError ''bad_request:database'' (Some ''Failed to get documents by id''))
   \<and> (fst (getDocumentById doc_id s) = Inl e \<longrightarrow>
      e = ChatSDKError ''bad_request:database'' (Some ''Failed to get document by id''))
   \<and> (fst (deleteDocumentsByIdAfterTimestamp doc_id timestamp s) = Inl e \<longrightarrow>
      e = ChatSDKError ''bad_request:database'' (Some ''Failed to delete documents by id after timestamp''))
   \<and> (fst (saveSuggestions suggs s) = Inl e \<longrightarrow>
      e = ChatSDKError ''bad_request:database'' (Some ''Failed to save suggestions''))
   \<and> (fst (getSuggestionsByDocumentId doc_id s) = Inl e \<longrightarrow>
      e = ChatSDKError ''bad_request:database'' (Some ''Failed to get suggestions by document id''))
   \<and> (fst (getMessageById message_id s) = Inl e \<longrightarrow>
      e = ChatSDKError ''bad_request:database'' (Some ''Failed to get message by id''))
   \<and> (fst (deleteMessagesByChatIdAfterTimestamp chat_id timestamp s) = Inl e \<longrightarrow>
      e = ChatSDKError ''bad_request:database'' (Some ''Failed to delete messages by chat id after timestamp''))
   \<and> (fst (updateChatVisiblityById chat_id visibility s) = Inl e \<longrightarrow>
      e = ChatSDKError ''bad_request:database'' (Some ''Failed to update chat visibility by id''))
   \<and> (fst (getMessageCountByUserId now user_id differenceInHours s) = Inl e \<longrightarrow>
      e = ChatSDKError ''bad_request:database'' (Some ''Failed to get message count by user id''))
   \<and> (fst (createStreamId now stream_id chat_id s) = Inl e \<longrightarrow>
      e = ChatSDKError ''bad_request:database'' (Some ''Failed to create stream id''))
   \<and> (fst (getStreamIdsByChatId chat_id s) = Inl e \<longrightarrow>
      e = ChatSDKError ''bad_request:database'' (Some ''Failed to get stream ids by chat id''))
   \<and> (isl (fst (user_findMany (\<lambda>u. User_email u = Some email) s))
      \<longrightarrow> fst (getUser email s)
        = Inl (ChatSDKError ''bad_request:database'' (Some ''Failed to get user by email'')))
   \<and> (isl (fst (user_create
         \<lparr>User_id = uuid, User_username = takeWhile (\<lambda>c. c \<noteq> CHR ''@'') email @ ''_'' @ string_of_int now,
          User_email = Some email, User_password_hash = Some (generateHashedPassword password)\<rparr> s))
      \<longrightarrow> fst (createUser generateHashedPassword uuid now email password s)
        = Inl (ChatSDKError ''bad_request:database'' (Some ''Failed to create user'')))
   \<and> (isl (fst (user_create
         \<lparr>User_id = uuid, User_username = ''guest_'' @ string_of_int now',
          User_email = Some (''guest-'' @ string_of_int now @ ''@example.com''),
          User_password_hash = Some (generateHashedPassword uuid')\<rparr> s))
      \<longrightarrow> fst (createGuestUser generateHashedPassword uuid uuid' now now' s)
        = Inl (ChatSDKError ''bad_request:database'' (Some ''Failed to create guest user'')))
   \<and> (isl (fst (chat_create
         \<lparr>Chat_id = chat_id, Chat_userId = user_id, Chat_title = Some title,
          Chat_visibility = visibility, Chat_createdAt = now\<rparr> s))
      \<longrightarrow> fst (saveChat now chat_id user_id title visibility s)
        = Inl (ChatSDKError ''bad_request:database'' (Some ''Failed to save chat'')))
   \<and> (isl (fst (vote_deleteMany (\<lambda>v. Vote_chatId v = chat_id) s))
      \<longrightarrow> fst (deleteChatById chat_id s)
        = Inl (ChatSDKError ''bad_request:database'' (Some ''Failed to delete chat by id'')))
   \<and> (vote_deleteMany (\<lambda>v. Vote_chatId v = chat_id) s = (Inr ra, t)
       \<and> isl (fst (message_deleteMany (\<lambda>m. Message_chatId m = chat_id) t))
      \<longrightarrow> fst (deleteChatById chat_id s)
        = Inl (ChatSDKError ''bad_request:database'' (Some ''Failed to delete chat by id'')))
   \<and> (vote_deleteMany (\<lambda>v. Vote_chatId v = chat_id) s = (Inr ra, t)
       \<and> message_deleteMany (\<lambda>m. Message_chatId m = chat_id) t = (Inr rb, u)
       \<and> isl (fst (stream_deleteMany (\<lambda>t. Stream_chatId t = chat_id) u))
      \<longrightarrow> fst (deleteChatById chat_id s)
        = Inl (ChatSDKError ''bad_request:database'' (Some ''Failed to delete chat by id'')))
   \<and> (vote_deleteMany (\<lambda>v. Vote_chatId v = chat_id) s = (Inr ra, t)
       \<and> message_deleteMany (\<lambda>m. Message_chatId m = chat_id) t = (Inr rb, u)
       \<and> stream_deleteMany (\<lambda>t. Stream_chatId t = chat_id) u = (Inr rc, w)
       \<and> isl (fst (chat_delete chat_id w))
      \<longrightarrow> fst (deleteChatById chat_id s)
        = Inl (ChatSDKError ''bad_request:database'' (Some ''Failed to delete chat by id'')))
   \<and> (if_truthy startingAfter = Some sa
       \<and> isl (fst (chat_findFirst (\<lambda>c. Chat_id c = sa) s))
      \<longrightarrow> fst (getChatsByUserId user_id limit startingAfter endingBefore s)
        = Inl (ChatSDKError ''bad_request:database'' (Some ''Failed to get chats by user id'')))
   \<and> (if_truthy startingAfter = Some sa
       \<and> chat_findFirst (\<lambda>c. Chat_id c = sa) s = (Inr (Some sel), t)
       \<and> isl (fst (chat_findMany (\<lambda>c. Chat_userId c = user_id \<and> Chat_createdAt c > Chat_createdAt sel)
           (Some (Chat_createdAt, Desc)) (Some (limit + 1)) t))
      \<longrightarrow> fst (getChatsByUserId user_id limit startingAfter endingBefore s)
        = Inl (ChatSDKError ''bad_request:database'' (Some ''Failed to get chats by user id'')))
   \<and> (if_truthy startingAfter = None
       \<and> if_truthy endingBefore = Some eb
       \<and> isl (fst (chat_findFirst (\<lambda>c. Chat_id c = eb) s))
      \<longrightarrow> fst (getChatsByUserId user_id limit startingAfter endingBefore s)
        = Inl (ChatSDKError ''bad_request:database'' (Some ''Failed to get chats by user id'')))
   \<and> (if_truthy startingAfter = None
       \<and> if_truthy endingBefore = Some eb
       \<and> chat_findFirst (\<lambda>c. Chat_id c = eb) s = (Inr (Some sel), t)
       \<and> isl (fst (chat_findMany (\<lambda>c. Chat_userId c = user_id \<and> Chat_createdAt c < Chat_createdAt sel)
           (Some (Chat_createdAt, Desc)) (Some (limit + 1)) t))
      \<longrightarrow> fst (getChatsByUserId user_id limit startingAfter endingBefore s)
        = Inl (ChatSDKError ''bad_request:database'' (Some ''Failed to get chats by user id'')))
   \<and> (if_truthy startingAfter = None
       \<and> if_truthy endingBefore = None
       \<and> isl (fst (chat_findMany (\<lambda>c. Chat_userId c = user_id \<and> True)
           (Some (Chat_createdAt, Desc)) (Some (limit + 1)) s))
      \<longrightarrow> fst (getChatsByUserId user_id limit startingAfter endingBefore s)
        = Inl (ChatSDKError ''bad_request:database'' (Some ''Failed to get chats by user id'')))
   \<and> (isl (fst (chat_findFirst (\<lambda>c. Chat_id c = chat_id) s))
      \<longrightarrow> fst (getChatById chat_id s)
        = Inl (ChatSDKError ''bad_request:database'' (Some ''Failed to get chat by id'')))
   \<and> (isl (fst (message_createMany msgs s))
      \<longrightarrow> fst (saveMessages msgs s)
        = Inl (ChatSDKError ''bad_request:database'' (Some ''Failed to save messages'')))
   \<and> (isl (fst (message_findMany (\<lambda>m. Message_chatId m = chat_id) (Some (Message_createdAt, Asc)) s))
      \<longrightarrow> fst (getMessagesByChatId chat_id s)
        = Inl (ChatSDKError ''bad_request:database'' (Some ''Failed to get messages by chat id'')))
   \<and> (isl (fst (vote_findFirst (\<lambda>v. Vote_chatId v = chat_id \<and> Vote_messageId v = message_id
           \<and> Vote_userId v = user_id) s))
      \<longrightarrow> fst (voteMessage chat_id message_id user_id vote_type s)
        = Inl (ChatSDKError ''bad_request:database'' (Some ''Failed to vote message'')))
   \<and> (vote_findFirst (\<lambda>v. Vote_chatId v = chat_id \<and> Vote_messageId v = message_id
           \<and> Vote_userId v = user_id) s = (Inr (Some ev), t)
       \<and> isl (fst (vote_update (chat_id, message_id, user_id)
           (\<lambda>v. v\<lparr>Vote_isUpvoted := (vote_type = Up)\<rparr>) t))
      \<longrightarrow> fst (voteMessage chat_id message_id user_id vote_type s)
        = Inl (ChatSDKError ''bad_request:database'' (Some ''Failed to vote message'')))
   \<and> (vote_findFirst (\<lambda>v. Vote_chatId v = chat_id \<and> Vote_messageId v = message_id
           \<and> Vote_userId v = user_id) s = (Inr None, t)
       \<and> isl (fst (vote_create
           \<lparr>Vote_chatId = chat_id, Vote_messageId = message_id, Vote_userId = user_id,
            Vote_isUpvoted = (vote_type = Up)\<rparr> t))
      \<longrightarrow> fst (voteMessage chat_id message_id user_id vote_type s)
        = Inl (ChatSDKError ''bad_request:database'' (Some ''Failed to vote message'')))
   \<and> (isl (fst (vote_findMany (\<lambda>v. Vote_chatId v = chat_id) s))
      \<longrightarrow> fst (getVotesByChatId chat_id s)
        = Inl (ChatSDKError ''bad_request:database'' (Some ''Failed to get votes by chat id'')))
   \<and> (isl (fst (document_create
         \<lparr>Document_id = doc_id, Document_userId = user_id, Document_title = Some title,
          Document_content = Some content, Document_kind = kind, Document_createdAt = now\<rparr> s))
      \<longrightarrow> fst (saveDocument now doc_id title kind content user_id s)
        = Inl (ChatSDKError ''bad_request:database'' (Some ''Failed to save document'')))
   \<and> (isl (fst (document_findMany (\<lambda>d. Document_id d = doc_id) (Some (Document_createdAt, Asc)) s))
      \<longrightarrow> fst (getDocumentsById doc_id s)
        = Inl (ChatSDKError ''bad_request:database'' (Some ''Failed to get documents by id'')))
   \<and> (isl (fst (document_findFirst (\<lambda>d. Document_id d = doc_id) (Some (Document_createdAt, Desc)) s))
      \<longrightarrow> fst (getDocumentById doc_id s)
        = Inl (ChatSDKError ''bad_request:database'' (Some ''Failed to get document by id'')))
   \<and> (isl (fst (suggestion_deleteMany
           (\<lambda>g. Suggestion_documentId g = doc_id \<and> Suggestion_createdAt g > timestamp) s))
      \<longrightarrow> fst (deleteDocumentsByIdAfterTimestamp doc_id timestamp s)
        = Inl (ChatSDKError ''bad_request:database'' (Some ''Failed to delete documents by id after timestamp'')))
   \<and> (suggestion_deleteMany
           (\<lambda>g. Suggestion_documentId g = doc_id \<and> Suggestion_createdAt g > timestamp) s = (Inr ra, t)
       \<and> isl (fst (document_findMany (\<lambda>d. Document_id d = doc_id \<and> Document_createdAt d > timestamp) None t))
      \<longrightarrow> fst (deleteDocumentsByIdAfterTimestamp doc_id timestamp s)
        = Inl (ChatSDKError ''bad_request:database'' (Some ''Failed to delete documents by id after timestamp'')))
   \<and> (suggestion_deleteMany
           (\<lambda>g. Suggestion_documentId g = doc_id \<and> Suggestion_createdAt g > timestamp) s = (Inr ra, t)
       \<and> document_findMany (\<lambda>d. Document_id d = doc_id \<and> Document_createdAt d > timestamp) None t = (Inr deletedDocs, u)
       \<and> isl (fst (document_deleteMany (\<lambda>d. Document_id d = doc_id \<and> Document_createdAt d > timestamp) u))
      \<longrightarrow> fst (deleteDocumentsByIdAfterTimestamp doc_id timestamp s)
        = Inl (ChatSDKError ''bad_request:database'' (Some ''Failed to delete documents by id after timestamp'')))
   \<and> (isl (fst (suggestion_createMany suggs s))
      \<longrightarrow> fst (saveSuggestions suggs s)
        = Inl (ChatSDKError ''bad_request:database'' (Some ''Failed to save suggestions'')))
   \<and> (isl (fst (suggestion_findMany (\<lambda>g. Suggestion_documentId g = doc_id) s))
      \<longrightarrow> fst (getSuggestionsByDocumentId doc_id s)
        = Inl (ChatSDKError ''bad_request:database'' (Some ''Failed to get suggestions by document id'')))
   \<and> (isl (fst (message_findFirst (\<lambda>m. Message_id m = message_id) s))
      \<longrightarrow> fst (getMessageById message_id s)
        = Inl (ChatSDKError ''bad_request:database'' (Some ''Failed to get message by id'')))
   \<and> (isl (fst (message_findMany (\<lambda>m. Message_chatId m = chat_id \<and> Message_createdAt m \<ge> timestamp) None s))
      \<longrightarrow> fst (deleteMessagesByChatIdAfterTimestamp chat_id timestamp s)
        = Inl (ChatSDKError ''bad_request:database'' (Some ''Failed to delete messages by chat id after timestamp'')))
   \<and> (message_findMany (\<lambda>m. Message_chatId m = chat_id \<and> Message_createdAt m \<ge> timestamp) None s = (Inr found, t)
       \<and> found \<noteq> []
       \<and> isl (fst (vote_deleteMany
           (\<lambda>v. Vote_chatId v = chat_id \<and> Vote_messageId v \<in> set (map Message_id found)) t))
      \<longrightarrow> fst (deleteMessagesByChatIdAfterTimestamp chat_id timestamp s)
        = Inl (ChatSDKError ''bad_request:database'' (Some ''Failed to delete messages by chat id after timestamp'')))
   \<and> (message_findMany (\<lambda>m. Message_chatId m = chat_id \<and> Message_createdAt m \<ge> timestamp) None s = (Inr found, t)
       \<and> found \<noteq> []
       \<and> vote_deleteMany
           (\<lambda>v. Vote_chatId v = chat_id \<and> Vote_messageId v \<in> set (map Message_id found)) t = (Inr ra, u)
       \<and> isl (fst (message_deleteMany
           (\<lambda>m. Message_chatId m = chat_id \<and> Message_id m \<in> set (map Message_id found)) u))
      \<longrightarrow> fst (deleteMessagesByChatIdAfterTimestamp chat_id timestamp s)
        = Inl (ChatSDKError ''bad_request:database'' (Some ''Failed to delete messages by chat id after timestamp'')))
   \<and> (isl (fst (chat_update chat_id (\<lambda>c. c\<lparr>Chat_visibility := visibility\<rparr>) s))
      \<longrightarrow> fst (updateChatVisiblityById chat_id visibility s)
        = Inl (ChatSDKError ''bad_request:database'' (Some ''Failed to update chat visibility by id'')))
   \<and> (\<not> valid_time (now - differenceInHours * 60 * 60 * 1000)
      \<longrightarrow> fst (getMessageCountByUserId now user_id differenceInHours s)
        = Inl (ChatSDKError ''bad_request:database'' (Some ''Failed to get message count by user id'')))
   \<and> (isl (fst (message_count (\<lambda>chats m.
           list_ex (\<lambda>c. Chat_id c = Message_chatId m \<and> Chat_userId c = user_id) chats
           \<and> Message_createdAt m \<ge> now - differenceInHours * 60 * 60 * 1000
           \<and> Message_role m = ''user'') s))
      \<longrightarrow> fst (getMessageCountByUserId now user_id differenceInHours s)
        = Inl (ChatSDKError ''bad_request:database'' (Some ''Failed to get message count by user id'')))
   \<and> (isl (fst (stream_create \<lparr>Stream_id = stream_id, Stream_chatId = chat_id, Stream_createdAt = now\<rparr> s))
      \<longrightarrow> fst (createStreamId now stream_id chat_id s)
        = Inl (ChatSDKError ''bad_request:database'' (Some ''Failed to create stream id'')))
   \<and> (isl (fst (stream_findMany (\<lambda>t. Stream_chatId t = chat_id) (Some (Stream_createdAt, Asc)) s))
      \<longrightarrow> fst (getStreamIdsByChatId chat_id s)
        = Inl (ChatSDKError ''bad_request:database'' (Some ''Failed to get stream ids by chat id'')))"
  unfolding getUser_def createUser_def createGuestUser_def saveChat_def deleteChatById_def
    getChatsByUserId_def fetchChats_def getChatById_def saveMessages_def getMessagesByChatId_def
    voteMessage_def getVotesByChatId_def saveDocument_def getDocumentsById_def
    getDocumentById_def deleteDocumentsByIdAfterTimestamp_def saveSuggestions_def
    getSuggestionsByDocumentId_def getMessageById_def deleteMessagesByChatIdAfterTimestamp_def
    updateChatVisiblityById_def getMessageCountByUserId_def createStreamId_def
    getStreamIdsByChatId_def chats_query_def Let_def
  by (intro conjI impI;
      (erule try_catch_rethrow
       | (auto simp: try_catch_def io_bind_def io_throw_def io_return_def
            split: prod.splits sum.splits)))

theorem queries_raise_only_ChatSDKError_witness:
  "fst (getUser ''ann@example.com'' (example_db\<lparr>db_faults := [Some ''connection lost'']\<rparr>))
     = Inl (ChatSDKError ''bad_request:database'' (Some ''Failed to get user by email''))
   \<and> fst (saveMessages [example_msg ''m1'' ''c1'' ''user'' 40] example_db)
     = Inl (ChatSDKError ''bad_request:database'' (Some ''Failed to save messages''))
   \<and> fst (voteMessage ''c1'' ''m9'' ''u1'' Up example_db)
     = Inl (ChatSDKError ''bad_request:database'' (Some ''Failed to vote message''))"
proof -
  let ?down = "example_db\<lparr>db_faults := [Some ''connection lost'']\<rparr>"
  obtain e where e: "fst (getUser ''ann@example.com'' ?down) = Inl e"
    by (simp add: getUser_def try_catch_def user_findMany_def prisma_def io_throw_def)
  obtain e' where e': "fst (saveMessages [example_msg ''m1'' ''c1'' ''user'' 40] example_db) = Inl e'"
    by (simp add: saveMessages_def try_catch_def message_createMany_def prisma_def io_throw_def
        reject_def example_db_def example_msg_def)
  from e queries_raise_only_ChatSDKError
      [where s = ?down and email = "''ann@example.com''" and e = e, THEN conjunct1]
  have first: "e = ChatSDKError ''bad_request:database'' (Some ''Failed to get user by email'')"
    by simp
  from e' queries_raise_only_ChatSDKError
      [where s = example_db and msgs = "[example_msg ''m1'' ''c1'' ''user'' 40]" and e = e',
        THEN conjunct2, THEN conjunct2, THEN conjunct2, THEN conjunct2, THEN conjunct2,
        THEN conjunct2, THEN conjunct2, THEN conjunct1]
  have second: "e' = ChatSDKError ''bad_request:database'' (Some ''Failed to save messages'')"
    by simp
  have later: "vote_findFirst (\<lambda>v. Vote_chatId v = ''c1'' \<and> Vote_messageId v = ''m9''
           \<and> Vote_userId v = ''u1'') example_db = (Inr None, example_db)
       \<and> isl (fst (vote_create
           \<lparr>Vote_chatId = ''c1'', Vote_messageId = ''m9'', Vote_userId = ''u1'',
            Vote_isUpvoted = (Up = Up)\<rparr> example_db))"
    by (simp add: vote_findFirst_def vote_create_def prisma_def reject_def findFirstRows_def
        orderRows_def vote_key_def example_db_def example_chat_def example_msg_def)
  note third = queries_raise_only_ChatSDKError
      [where s = example_db and t = example_db and chat_id = "''c1''" and message_id = "''m9''"
        and user_id = "''u1''" and vote_type = Up,
        THEN conjunct2, THEN conjunct2, THEN conjunct2, THEN conjunct2, THEN conjunct2,
        THEN conjunct2, THEN conjunct2, THEN conjunct2, THEN conjunct2, THEN conjunct2,
        THEN conjunct2, THEN conjunct2, THEN conjunct2, THEN conjunct2, THEN conjunct2,
        THEN conjunct2, THEN conjunct2, THEN conjunct2, THEN conjunct2, THEN conjunct2,
        THEN conjunct2, THEN conjunct2, THEN conjunct2, THEN conjunct2, THEN conjunct2,
        THEN conjunct2, THEN conjunct2, THEN conjunct2, THEN conjunct2, THEN conjunct2,
        THEN conjunct2, THEN conjunct2, THEN conjunct2, THEN conjunct2, THEN conjunct2,
        THEN conjunct2, THEN conjunct2, THEN conjunct2, THEN conjunct2, THEN conjunct2,
        THEN conjunct2, THEN conjunct1, THEN mp, OF later]
  from first second third e e' show ?thesis by simp
qed

subsection \<open>getChatsByUserId: a cursor that is not there\<close>

lemma findFirstRows_None:
  "\<not> list_ex cond rows \<Longrightarrow> findFirstRows cond orderBy rows = None"
  by (auto simp: findFirstRows_def orderRows_def list_ex_iff filter_empty_conv
      split: option.splits sortOrder.splits)

lemma chat_findFirst_missing:
  assumes "\<not> list_ex cond (db_chats s)"
  shows "chat_findFirst cond s = (Inr None, advance s)
       \<or> (\<exists>e. chat_findFirst cond s = (Inl (PrismaError e), advance s))"
  using assms
  by (cases "fate s") (simp_all add: chat_findFirst_def prisma_step findFirstRows_None)

text \<open>
  C7, as the code has it. The cursor of a call is \<open>startingAfter\<close> when that is a non-empty
  string, and otherwise \<open>endingBefore\<close> when that is a non-empty string. When no chat has the
  cursor's id, the caller receives the \<open>ChatSDKError\<close> with code \<open>bad_request:database\<close> and
  message \<open>Failed to get chats by user id\<close>, whatever the database does: the \<open>not_found:database\<close>
  error raised inside the \<open>try\<close> block is caught by the function's own \<open>catch\<close>.
\<close>

theorem getChatsByUserId_missing_cursor:
  assumes "(\<exists>sa. if_truthy startingAfter = Some sa \<and> \<not> list_ex (\<lambda>c. Chat_id c = sa) (db_chats s))
         \<or> (if_truthy startingAfter = None
             \<and> (\<exists>eb. if_truthy endingBefore = Some eb \<and> \<not> list_ex (\<lambda>c. Chat_id c = eb) (db_chats s)))"
  shows "fst (getChatsByUserId user_id limit startingAfter endingBefore s)
     = Inl (ChatSDKError ''bad_request:database'' (Some ''Failed to get chats by user id''))"
proof -
  from assms consider
    (after) sa where "if_truthy startingAfter = Some sa" "\<not> list_ex (\<lambda>c. Chat_id c = sa) (db_chats s)"
  | (before) eb where "if_truthy startingAfter = None" "if_truthy endingBefore = Some eb"
      "\<not> list_ex (\<lambda>c. Chat_id c = eb) (db_chats s)"
    by blast
  then show ?thesis
  proof cases
    case after
    from chat_findFirst_missing [OF after(2)] after(1) show ?thesis
      by (auto simp: getChatsByUserId_def fetchChats_def Let_def try_catch_def io_bind_def io_throw_def)
  next
    case before
    from chat_findFirst_missing [OF before(3)] before(1,2) show ?thesis
      by (auto simp: getChatsByUserId_def fetchChats_def Let_def try_catch_def io_bind_def io_throw_def)
  qed
qed

theorem getChatsByUserId_missing_cursor_witness:
  "fst (getChatsByUserId ''u1'' 2 (Some ''c9'') None example_db)
     = Inl (ChatSDKError ''bad_request:database'' (Some ''Failed to get chats by user id''))"
proof -
  have "\<exists>sa. if_truthy (Some ''c9'') = Some sa \<and> \<not> list_ex (\<lambda>c. Chat_id c = sa) (db_chats example_db)"
    by (simp add: if_truthy_def example_db_def example_chat_def)
  then have "(\<exists>sa. if_truthy (Some ''c9'') = Some sa \<and> \<not> list_ex (\<lambda>c. Chat_id c = sa) (db_chats example_db))
         \<or> (if_truthy (Some ''c9'') = None
             \<and> (\<exists>eb. if_truthy None = Some eb \<and> \<not> list_ex (\<lambda>c. Chat_id c = eb) (db_chats example_db)))"
    by (rule disjI1)
  from getChatsByUserId_missing_cursor [OF this] show ?thesis .
qed

text \<open>
  C7 as worded does not hold: an empty \<open>startingAfter\<close> is not null and names no chat,
  yet the call returns the user's chats; and a \<open>endingBefore\<close> that names no chat is never
  looked at when \<open>startingAfter\<close> names one.
\<close>

theorem getChatsByUserId_nonnull_cursor_counterexample:
  "Some [] \<noteq> (None :: string option)
   \<and> [] \<notin> set (map Chat_id (db_chats example_db))
   \<and> fst (getChatsByUserId ''u2'' 2 (Some []) None example_db)
       = Inr ([example_chat ''c4'' ''u2'' 25], False)
   \<and> Some ''c9'' \<noteq> (None :: string option)
   \<and> ''c9'' \<notin> set (map Chat_id (db_chats example_db))
   \<and> fst (getChatsByUserId ''u1'' 2 (Some ''c1'') (Some ''c9'') example_db)
       = Inr ([example_chat ''c3'' ''u1'' 30, example_chat ''c2'' ''u1'' 20], False)"
  by (simp add: getChatsByUserId_def fetchChats_def Let_def try_catch_def io_bind_def io_throw_def io_return_def
      if_truthy_def chats_query_def chat_findMany_def chat_findFirst_def prisma_def
      findManyRows_def findFirstRows_def orderRows_def takeRows_def slice0_def
      example_db_def example_chat_def)

subsection \<open>getChatsByUserId: a page of chats\<close>

lemma chats_query_step:
  "chats_query user_id n cond s =
     (case fate s of
        Some e \<Rightarrow> (Inl (PrismaError e), advance s)
      | None \<Rightarrow>
          (Inr (takeRows (Some n)
                  (sort_key (\<lambda>c. - Chat_createdAt c)
                     (filter (\<lambda>c. Chat_userId c = user_id \<and> cond c) (db_chats s)))),
           advance s))"
  by (simp add: chats_query_def chat_findMany_def prisma_step findManyRows_def orderRows_def
      split: option.splits)

lemma chat_findFirst_step:
  "chat_findFirst cond s =
     (case fate s of
        Some e \<Rightarrow> (Inl (PrismaError e), advance s)
      | None \<Rightarrow> (Inr (findFirstRows cond None (db_chats s)), advance s))"
  by (simp add: chat_findFirst_def prisma_step split: option.splits)

lemma slice0_take: "0 \<le> e \<Longrightarrow> slice0 e xs = take (nat e) xs"
  by (auto simp: slice0_def Let_def min_def)

text \<open>What a successful call has fetched: the first \<open>limit + 1\<close> of the matching chats.\<close>

lemma matching_chats_after:
  assumes "if_truthy startingAfter = Some sa"
    and "findFirstRows (\<lambda>x. Chat_id x = sa) None (db_chats s) = Some sel"
  shows "matching_chats s user_id startingAfter endingBefore
     = sort_key (\<lambda>c. - Chat_createdAt c)
         (filter (\<lambda>c. Chat_userId c = user_id \<and> Chat_createdAt c > Chat_createdAt sel) (db_chats s))"
  using assms by (simp add: matching_chats_def cursor_condition_def)

lemma matching_chats_before:
  assumes "if_truthy startingAfter = None" "if_truthy endingBefore = Some eb"
    and "findFirstRows (\<lambda>x. Chat_id x = eb) None (db_chats s) = Some sel"
  shows "matching_chats s user_id startingAfter endingBefore
     = sort_key (\<lambda>c. - Chat_createdAt c)
         (filter (\<lambda>c. Chat_userId c = user_id \<and> Chat_createdAt c < Chat_createdAt sel) (db_chats s))"
  using assms by (simp add: matching_chats_def cursor_condition_def)

lemma matching_chats_all:
  assumes "if_truthy startingAfter = None" "if_truthy endingBefore = None"
  shows "matching_chats s user_id startingAfter endingBefore
     = sort_key (\<lambda>c. - Chat_createdAt c)
         (filter (\<lambda>c. Chat_userId c = user_id \<and> True) (db_chats s))"
  using assms by (simp add: matching_chats_def cursor_condition_def)

lemma fetchChats_rows:
  assumes "fetchChats user_id limit startingAfter endingBefore s = (Inr filteredChats, s1)"
  shows "filteredChats
     = takeRows (Some (limit + 1)) (matching_chats s user_id startingAfter endingBefore)"
proof (cases "if_truthy startingAfter")
  case (Some sa)
  show ?thesis
  proof (cases "findFirstRows (\<lambda>x. Chat_id x = sa) None (db_chats s)")
    case None
    with Some assms show ?thesis
      by (auto simp: fetchChats_def Let_def io_bind_def io_throw_def
          io_return_def chat_findFirst_step split: option.splits)
  next
    case (Some sel)
    note m = matching_chats_after [OF \<open>if_truthy startingAfter = Some sa\<close> Some, of user_id endingBefore]
    from \<open>if_truthy startingAfter = Some sa\<close> Some assms show ?thesis
      unfolding m
      by (auto simp: fetchChats_def Let_def io_bind_def io_throw_def
          io_return_def chat_findFirst_step chats_query_step split: option.splits if_splits)
  qed
next
  case None
  note none = None
  show ?thesis
  proof (cases "if_truthy endingBefore")
    case None
    note m = matching_chats_all [OF none None, of s user_id]
    from none None assms show ?thesis
      unfolding m
      by (auto simp: fetchChats_def Let_def io_bind_def io_throw_def
          io_return_def chats_query_step split: option.splits if_splits)
  next
    case (Some eb)
    show ?thesis
    proof (cases "findFirstRows (\<lambda>x. Chat_id x = eb) None (db_chats s)")
      case None
      with none Some assms show ?thesis
        by (auto simp: fetchChats_def Let_def io_bind_def io_throw_def
            io_return_def chat_findFirst_step split: option.splits)
    next
      case sel: (Some sel)
      note m = matching_chats_before [OF none Some sel, of user_id]
      from none Some sel assms show ?thesis
        unfolding m
        by (auto simp: fetchChats_def Let_def io_bind_def io_throw_def
            io_return_def chat_findFirst_step chats_query_step split: option.splits if_splits)
    qed
  qed
qed

text \<open>A call that returns has fetched, and pages what it fetched.\<close>

lemma getChatsByUserId_fetched:
  assumes "getChatsByUserId user_id limit startingAfter endingBefore s = (Inr (chats, hasMore), s')"
  shows "\<exists>filteredChats.
      fetchChats user_id limit startingAfter endingBefore s = (Inr filteredChats, s')
    \<and> filteredChats = takeRows (Some (limit + 1)) (matching_chats s user_id startingAfter endingBefore)
    \<and> hasMore = (int (length filteredChats) > limit)
    \<and> chats = (if hasMore then slice0 limit filteredChats else filteredChats)"
proof -
  from assms obtain filteredChats where f:
    "fetchChats user_id limit startingAfter endingBefore s = (Inr filteredChats, s')"
    "hasMore = (int (length filteredChats) > limit)"
    "chats = (if hasMore then slice0 limit filteredChats else filteredChats)"
    by (auto simp: getChatsByUserId_def try_catch_def io_bind_def io_throw_def io_return_def Let_def
        split: prod.splits sum.splits if_splits)
  from fetchChats_rows [OF f(1)] f show ?thesis by blast
qed

lemma page_of_matching:
  assumes "0 < limit"
    and "filteredChats = takeRows (Some (limit + 1)) matched"
    and "hasMore = (int (length filteredChats) > limit)"
    and "chats = (if hasMore then slice0 limit filteredChats else filteredChats)"
  shows "chats = take (nat limit) matched \<and> hasMore = (int (length matched) > limit)"
proof -
  from assms(1,2) have f: "filteredChats = take (nat limit + 1) matched"
    by (simp add: takeRows_def nat_add_distrib)
  from assms(1) f have len: "int (length filteredChats) > limit \<longleftrightarrow> int (length matched) > limit"
    by (auto simp: min_def)
  show ?thesis
  proof (cases hasMore)
    case True
    with assms(1,4) f have "chats = take (nat limit) matched"
      by (simp add: slice0_take min_def)
    with True assms(3) len show ?thesis by simp
  next
    case False
    with assms(3) len have "length matched \<le> nat limit" by linarith
    with False assms(3,4) f len show ?thesis by simp
  qed
qed

lemma matching_chats_sorted:
  "sorted_wrt (\<lambda>a b. Chat_createdAt a \<ge> Chat_createdAt b)
     (matching_chats s user_id startingAfter endingBefore)"
proof -
  have "sorted (map (\<lambda>c. - Chat_createdAt c) (matching_chats s user_id startingAfter endingBefore))"
    unfolding matching_chats_def by (rule sorted_sort_key)
  then show ?thesis by (simp add: sorted_map)
qed

text \<open>
  C5. For a positive \<open>limit\<close>, a call that returns has fetched, with \<open>take: limit + 1\<close>, the
  first \<open>limit + 1\<close> of the matching chats (those of the user on the asked side of the
  cursor, newest first), so at most \<open>limit + 1\<close> chats, and returns the first \<open>limit\<close> of them:
  never more than \<open>limit\<close>, all of the user, in descending \<open>createdAt\<close> order. \<open>hasMore\<close> is
  true exactly when more than \<open>limit\<close> chats match, and then exactly \<open>limit\<close> chats are
  returned, the extra one fetched being dropped.
\<close>

theorem getChatsByUserId_page:
  assumes "0 < limit"
    and "getChatsByUserId user_id limit startingAfter endingBefore s = (Inr (chats, hasMore), s')"
  shows "fetchChats user_id limit startingAfter endingBefore s
        = (Inr (takeRows (Some (limit + 1)) (matching_chats s user_id startingAfter endingBefore)), s')
    \<and> takeRows (Some (limit + 1)) (matching_chats s user_id startingAfter endingBefore)
        = take (nat limit + 1) (matching_chats s user_id startingAfter endingBefore)
    \<and> int (length (takeRows (Some (limit + 1))
          (matching_chats s user_id startingAfter endingBefore))) \<le> limit + 1
    \<and> chats = take (nat limit)
          (takeRows (Some (limit + 1)) (matching_chats s user_id startingAfter endingBefore))
    \<and> hasMore = (int (length (takeRows (Some (limit + 1))
          (matching_chats s user_id startingAfter endingBefore))) > limit)
    \<and> chats = take (nat limit) (matching_chats s user_id startingAfter endingBefore)
    \<and> hasMore = (int (length (matching_chats s user_id startingAfter endingBefore)) > limit)
    \<and> int (length chats) \<le> limit
    \<and> (hasMore \<longrightarrow> int (length chats) = limit
          \<and> takeRows (Some (limit + 1)) (matching_chats s user_id startingAfter endingBefore)
              = chats @ [matching_chats s user_id startingAfter endingBefore ! nat limit])
    \<and> (\<forall>c \<in> set chats. Chat_userId c = user_id)
    \<and> sorted_wrt (\<lambda>a b. Chat_createdAt a \<ge> Chat_createdAt b) chats"
proof -
  let ?matched = "matching_chats s user_id startingAfter endingBefore"
  let ?fetched = "takeRows (Some (limit + 1)) ?matched"
  from getChatsByUserId_fetched [OF assms(2)]
  have fetch: "fetchChats user_id limit startingAfter endingBefore s = (Inr ?fetched, s')"
    and more': "hasMore = (int (length ?fetched) > limit)"
    and page': "chats = (if hasMore then slice0 limit ?fetched else ?fetched)"
    by blast+
  from page_of_matching [OF assms(1) refl more' page']
  have page: "chats = take (nat limit) ?matched"
    and more: "hasMore = (int (length ?matched) > limit)"
    by blast+
  from assms(1) have rows: "?fetched = take (nat limit + 1) ?matched"
    by (simp add: takeRows_def nat_add_distrib)
  from rows assms(1) have bound: "int (length ?fetched) \<le> limit + 1" by simp
  from rows page have page2: "chats = take (nat limit) ?fetched" by (simp add: min_def)
  from page assms(1) have short: "int (length chats) \<le> limit" by simp
  have full: "int (length chats) = limit
      \<and> ?fetched = chats @ [?matched ! nat limit]" if hasMore
  proof -
    from that more have "limit < int (length ?matched)" by simp
    with assms(1) have l: "nat limit < length ?matched" by (simp add: nat_less_iff)
    with page assms(1) have "int (length chats) = limit" by simp
    moreover from l have "take (Suc (nat limit)) ?matched = take (nat limit) ?matched @ [?matched ! nat limit]"
      by (rule take_Suc_conv_app_nth)
    with rows page have "?fetched = chats @ [?matched ! nat limit]"
      by simp
    ultimately show ?thesis by simp
  qed
  have "set chats \<subseteq> set ?matched" unfolding page by (rule set_take_subset)
  then have own: "\<forall>c \<in> set chats. Chat_userId c = user_id"
    by (auto simp: matching_chats_def)
  have ordered: "sorted_wrt (\<lambda>a b. Chat_createdAt a \<ge> Chat_createdAt b) chats"
    unfolding page by (intro sorted_wrt_take matching_chats_sorted)
  from full have full': "hasMore \<longrightarrow> int (length chats) = limit
      \<and> ?fetched = chats @ [?matched ! nat limit]"
    by (rule impI)
  show ?thesis
    by (intro conjI fetch rows bound page2 more' page more short full' own ordered)
qed

theorem getChatsByUserId_page_witness:
  "getChatsByUserId ''u1'' 2 None None example_db
     = (Inr ([example_chat ''c3'' ''u1'' 30, example_chat ''c2'' ''u1'' 20], True), example_db)
   \<and> fetchChats ''u1'' 2 None None example_db
       = (Inr [example_chat ''c3'' ''u1'' 30, example_chat ''c2'' ''u1'' 20,
               example_chat ''c1'' ''u1'' 10], example_db)
   \<and> [example_chat ''c3'' ''u1'' 30, example_chat ''c2'' ''u1'' 20]
       = take (nat 2) (matching_chats example_db ''u1'' None None)"
proof -
  have run: "getChatsByUserId ''u1'' 2 None None example_db
     = (Inr ([example_chat ''c3'' ''u1'' 30, example_chat ''c2'' ''u1'' 20], True), example_db)"
    by (simp add: getChatsByUserId_def fetchChats_def Let_def try_catch_def io_bind_def io_throw_def
        io_return_def if_truthy_def chats_query_def chat_findMany_def chat_findFirst_def prisma_def
        findManyRows_def findFirstRows_def orderRows_def takeRows_def slice0_def
        example_db_def example_chat_def)
  have rows: "takeRows (Some (2 + 1)) (matching_chats example_db ''u1'' None None)
      = [example_chat ''c3'' ''u1'' 30, example_chat ''c2'' ''u1'' 20, example_chat ''c1'' ''u1'' 10]"
    by (simp add: matching_chats_def cursor_condition_def if_truthy_def takeRows_def
        example_db_def example_chat_def)
  have pos: "(0::int) < 2" by simp
  note page = getChatsByUserId_page [OF pos run]
  from page [THEN conjunct1]
  have "fetchChats ''u1'' 2 None None example_db
       = (Inr (takeRows (Some (2 + 1)) (matching_chats example_db ''u1'' None None)), example_db)" .
  then have fetch: "fetchChats ''u1'' 2 None None example_db
       = (Inr [example_chat ''c3'' ''u1'' 30, example_chat ''c2'' ''u1'' 20,
               example_chat ''c1'' ''u1'' 10], example_db)"
    unfolding rows .
  from page [THEN conjunct2, THEN conjunct2, THEN conjunct2, THEN conjunct2, THEN conjunct2,
      THEN conjunct1]
  have first: "[example_chat ''c3'' ''u1'' 30, example_chat ''c2'' ''u1'' 20]
       = take (nat 2) (matching_chats example_db ''u1'' None None)" .
  from run fetch first show ?thesis by (intro conjI)
qed

subsection \<open>voteMessage: one row per chat, message and user\<close>

lemma vote_cond_key:
  "(Vote_chatId v = c \<and> Vote_messageId v = m \<and> Vote_userId v = u) = (vote_key v = (c, m, u))"
  by (auto simp: vote_key_def)

lemma vote_key_isUpvoted [simp]: "vote_key (v\<lparr>Vote_isUpvoted := b\<rparr>) = vote_key v"
  by (simp add: vote_key_def)

lemma findFirstRows_plain:
  "findFirstRows cond None rows = (case filter cond rows of [] \<Rightarrow> None | r # rest \<Rightarrow> Some r)"
  by (simp add: findFirstRows_def orderRows_def)

lemma filter_key_single:
  "distinct (map f xs) \<Longrightarrow> filter (\<lambda>y. f y = k) xs = r # rest \<Longrightarrow> rest = []"
proof (induction xs arbitrary: r rest)
  case Nil
  then show ?case by simp
next
  case (Cons x xs)
  show ?case
  proof (cases "f x = k")
    case True
    from Cons.prems(1) have "f x \<notin> f ` set xs" by simp
    with True have "\<forall>y \<in> set xs. f y \<noteq> k" by blast
    then have "filter (\<lambda>y. f y = k) xs = []"
      by (simp add: filter_empty_conv)
    with True Cons.prems(2) show ?thesis by simp
  next
    case False
    with Cons.prems have "filter (\<lambda>y. f y = k) xs = r # rest" by simp
    with Cons.IH Cons.prems(1) show ?thesis by simp
  qed
qed

lemma filter_other_keys:
  assumes "\<And>x. g (h x) = g x"
  shows "filter (\<lambda>x. g x \<noteq> k) (map (\<lambda>x. if g x = k then h x else x) xs)
     = filter (\<lambda>x. g x \<noteq> k) xs"
  by (induction xs) (simp_all add: assms)

text \<open>The two ways a call of \<open>voteMessage\<close> returns.\<close>

lemma voteMessage_returns:
  assumes "voteMessage chatId messageId userId type s = (Inr v, s')"
  shows "(\<exists>ev rest. filter (\<lambda>x. vote_key x = (chatId, messageId, userId)) (db_votes s) = ev # rest
            \<and> v = ev\<lparr>Vote_isUpvoted := (type = Up)\<rparr>
            \<and> db_votes s' =
                map (\<lambda>x. if vote_key x = (chatId, messageId, userId)
                          then x\<lparr>Vote_isUpvoted := (type = Up)\<rparr> else x) (db_votes s))
       \<or> (filter (\<lambda>x. vote_key x = (chatId, messageId, userId)) (db_votes s) = []
            \<and> v = \<lparr>Vote_chatId = chatId, Vote_messageId = messageId, Vote_userId = userId,
                    Vote_isUpvoted = (type = Up)\<rparr>
            \<and> db_votes s' = db_votes s @ [v])"
  using assms
  unfolding voteMessage_def try_catch_def io_bind_def io_throw_def vote_findFirst_def
    vote_update_def vote_create_def prisma_step reject_def vote_cond_key findFirstRows_plain
  by (auto split: option.splits if_splits prod.splits sum.splits list.splits)

text \<open>
  C4. Given the primary key of the \<open>Vote\<close> table (no two rows with the same chat, message
  and user), after a call of \<open>voteMessage\<close> that returns, exactly one row has the call's
  triple; it is the row returned and its \<open>isUpvoted\<close> is \<open>type === 'up'\<close>. The key still
  holds, the rows of other triples are untouched, and the table has grown by one row
  exactly when no row had the triple before: an existing row is updated, a missing one
  created.
\<close>

theorem voteMessage_single_row:
  assumes "distinct (map vote_key (db_votes s))"
    and "voteMessage chatId messageId userId type s = (Inr v, s')"
  shows "filter (\<lambda>x. vote_key x = (chatId, messageId, userId)) (db_votes s') = [v]
    \<and> Vote_isUpvoted v = (type = Up)
    \<and> distinct (map vote_key (db_votes s'))
    \<and> filter (\<lambda>x. vote_key x \<noteq> (chatId, messageId, userId)) (db_votes s')
        = filter (\<lambda>x. vote_key x \<noteq> (chatId, messageId, userId)) (db_votes s)
    \<and> length (db_votes s') =
        (if (chatId, messageId, userId) \<in> set (map vote_key (db_votes s))
         then length (db_votes s) else length (db_votes s) + 1)"
proof -
  let ?k = "(chatId, messageId, userId)"
  let ?set = "\<lambda>x. if vote_key x = ?k then x\<lparr>Vote_isUpvoted := (type = Up)\<rparr> else x"
  from voteMessage_returns [OF assms(2)] consider
    (update) ev rest where "filter (\<lambda>x. vote_key x = ?k) (db_votes s) = ev # rest"
      "v = ev\<lparr>Vote_isUpvoted := (type = Up)\<rparr>" "db_votes s' = map ?set (db_votes s)"
  | (create) "filter (\<lambda>x. vote_key x = ?k) (db_votes s) = []"
      "v = \<lparr>Vote_chatId = chatId, Vote_messageId = messageId, Vote_userId = userId,
            Vote_isUpvoted = (type = Up)\<rparr>"
      "db_votes s' = db_votes s @ [v]"
    by blast
  then show ?thesis
  proof cases
    case update
    from filter_key_single [OF assms(1) update(1)] update(1)
    have one: "filter (\<lambda>x. vote_key x = ?k) (db_votes s) = [ev]" by simp
    have keys: "map vote_key (map ?set (db_votes s)) = map vote_key (db_votes s)"
      by (simp add: comp_def if_distrib cong: if_cong)
    have "filter (\<lambda>x. vote_key x = ?k) (map ?set (db_votes s))
        = map ?set (filter (\<lambda>x. vote_key x = ?k) (db_votes s))"
      by (simp add: filter_map comp_def if_distrib cong: if_cong)
    moreover from one have "ev \<in> set (filter (\<lambda>x. vote_key x = ?k) (db_votes s))" by simp
    then have kev: "vote_key ev = ?k" by simp
    ultimately have a: "filter (\<lambda>x. vote_key x = ?k) (db_votes s') = [v]"
      unfolding update(3) using one update(2) by simp
    have b: "Vote_isUpvoted v = (type = Up)" using update(2) by simp
    have c: "distinct (map vote_key (db_votes s'))"
      unfolding update(3) keys by (rule assms(1))
    have "filter (\<lambda>x. vote_key x \<noteq> ?k) (map ?set (db_votes s))
        = filter (\<lambda>x. vote_key x \<noteq> ?k) (db_votes s)"
      by (rule filter_other_keys) simp
    then have d: "filter (\<lambda>x. vote_key x \<noteq> ?k) (db_votes s')
        = filter (\<lambda>x. vote_key x \<noteq> ?k) (db_votes s)"
      unfolding update(3) .
    from one have "ev \<in> set (filter (\<lambda>x. vote_key x = ?k) (db_votes s))" by simp
    then have "?k \<in> set (map vote_key (db_votes s))" by force
    then have e: "length (db_votes s') =
        (if ?k \<in> set (map vote_key (db_votes s))
         then length (db_votes s) else length (db_votes s) + 1)"
      unfolding update(3) by simp
    from a b c d e show ?thesis by blast
  next
    case create
    from create(1) have none: "?k \<notin> set (map vote_key (db_votes s))"
      by (auto simp: filter_empty_conv)
    have kv: "vote_key v = ?k" using create(2) by (simp add: vote_key_def)
    from create(1) kv have a: "filter (\<lambda>x. vote_key x = ?k) (db_votes s') = [v]"
      unfolding create(3) by simp
    have b: "Vote_isUpvoted v = (type = Up)" using create(2) by simp
    from assms(1) none kv have c: "distinct (map vote_key (db_votes s'))"
      unfolding create(3) by simp
    from kv have d: "filter (\<lambda>x. vote_key x \<noteq> ?k) (db_votes s')
        = filter (\<lambda>x. vote_key x \<noteq> ?k) (db_votes s)"
      unfolding create(3) by simp
    from none have e: "length (db_votes s') =
        (if ?k \<in> set (map vote_key (db_votes s))
         then length (db_votes s) else length (db_votes s) + 1)"
      unfolding create(3) by simp
    from a b c d e show ?thesis by blast
  qed
qed

theorem voteMessage_single_row_witness:
  "voteMessage ''c1'' ''m2'' ''u1'' Up example_db
     = (Inr \<lparr>Vote_chatId = ''c1'', Vote_messageId = ''m2'', Vote_userId = ''u1'', Vote_isUpvoted = True\<rparr>,
        example_db\<lparr>db_votes :=
          [\<lparr>Vote_chatId = ''c1'', Vote_messageId = ''m2'', Vote_userId = ''u1'', Vote_isUpvoted = True\<rparr>]\<rparr>)
   \<and> fst (voteMessage ''c1'' ''m3'' ''u2'' Down example_db)
     = Inr \<lparr>Vote_chatId = ''c1'', Vote_messageId = ''m3'', Vote_userId = ''u2'', Vote_isUpvoted = False\<rparr>
   \<and> length (db_votes (snd (voteMessage ''c1'' ''m3'' ''u2'' Down example_db))) = 2
   \<and> filter (\<lambda>x. vote_key x = (''c1'', ''m3'', ''u2''))
        (db_votes (snd (voteMessage ''c1'' ''m3'' ''u2'' Down example_db)))
     = [\<lparr>Vote_chatId = ''c1'', Vote_messageId = ''m3'', Vote_userId = ''u2'', Vote_isUpvoted = False\<rparr>]"
proof -
  have key: "distinct (map vote_key (db_votes example_db))"
    by (simp add: example_db_def)
  have run1: "voteMessage ''c1'' ''m2'' ''u1'' Up example_db
     = (Inr \<lparr>Vote_chatId = ''c1'', Vote_messageId = ''m2'', Vote_userId = ''u1'', Vote_isUpvoted = True\<rparr>,
        example_db\<lparr>db_votes :=
          [\<lparr>Vote_chatId = ''c1'', Vote_messageId = ''m2'', Vote_userId = ''u1'', Vote_isUpvoted = True\<rparr>]\<rparr>)"
    by (simp add: voteMessage_def try_catch_def io_bind_def io_throw_def vote_findFirst_def
        vote_update_def vote_create_def prisma_def reject_def findFirstRows_def orderRows_def
        vote_key_def example_db_def)
  obtain s' where run2: "voteMessage ''c1'' ''m3'' ''u2'' Down example_db
     = (Inr \<lparr>Vote_chatId = ''c1'', Vote_messageId = ''m3'', Vote_userId = ''u2'', Vote_isUpvoted = False\<rparr>, s')"
    by (simp add: voteMessage_def try_catch_def io_bind_def io_throw_def vote_findFirst_def
        vote_update_def vote_create_def prisma_def reject_def findFirstRows_def orderRows_def
        vote_key_def example_db_def example_chat_def example_msg_def)
  from voteMessage_single_row [OF key run2] run1 run2 show ?thesis
    by (simp add: example_db_def vote_key_def)
qed

subsection \<open>deleteMessagesByChatIdAfterTimestamp\<close>

lemma findManyRows_plain: "findManyRows cond None None rows = filter cond rows"
  by (simp add: findManyRows_def orderRows_def takeRows_def)

text \<open>With unique message ids, selecting by chat and id selects the messages found.\<close>

lemma by_id_is_by_time:
  assumes "distinct (map Message_id msgs)" "m \<in> set msgs"
  shows "(Message_chatId m = chatId
          \<and> Message_id m \<in> set (map Message_id
               (filter (\<lambda>x. Message_chatId x = chatId \<and> Message_createdAt x \<ge> timestamp) msgs)))
       \<longleftrightarrow> (Message_chatId m = chatId \<and> Message_createdAt m \<ge> timestamp)"
proof -
  from assms(1) have inj: "inj_on Message_id (set msgs)"
    by (simp add: distinct_map)
  show ?thesis
  proof
    assume l: "Message_chatId m = chatId
          \<and> Message_id m \<in> set (map Message_id
               (filter (\<lambda>x. Message_chatId x = chatId \<and> Message_createdAt x \<ge> timestamp) msgs))"
    then obtain x where x: "x \<in> set msgs" "Message_createdAt x \<ge> timestamp"
      "Message_id x = Message_id m"
      by auto
    from inj x(1,3) assms(2) have "x = m" by (auto dest: inj_onD)
    with x(2) l show "Message_chatId m = chatId \<and> Message_createdAt m \<ge> timestamp" by simp
  next
    assume "Message_chatId m = chatId \<and> Message_createdAt m \<ge> timestamp"
    with assms(2) show "Message_chatId m = chatId
          \<and> Message_id m \<in> set (map Message_id
               (filter (\<lambda>x. Message_chatId x = chatId \<and> Message_createdAt x \<ge> timestamp) msgs))"
      by auto
  qed
qed

text \<open>The two ways a call returns: nothing matched, or votes and then messages were deleted.\<close>

lemma deleteMessages_returns:
  assumes "deleteMessagesByChatIdAfterTimestamp chatId timestamp s = (Inr r, s')"
  shows "(messages_from s chatId timestamp = [] \<and> r = None \<and> s' = advance s)
       \<or> (messages_from s chatId timestamp \<noteq> []
           \<and> r = Some (countRows
                 (\<lambda>m. Message_chatId m = chatId
                      \<and> Message_id m \<in> set (map Message_id (messages_from s chatId timestamp)))
                 (db_messages s))
           \<and> s' = (advance (advance (advance s)))
               \<lparr>db_messages :=
                  filter (\<lambda>m. \<not> (Message_chatId m = chatId
                      \<and> Message_id m \<in> set (map Message_id (messages_from s chatId timestamp))))
                    (db_messages s),
                db_votes :=
                  filter (\<lambda>v. \<not> list_ex (\<lambda>m. (Message_chatId m = chatId
                        \<and> Message_id m \<in> set (map Message_id (messages_from s chatId timestamp)))
                        \<and> Message_id m = Vote_messageId v) (db_messages s))
                    (filter (\<lambda>v. \<not> (Vote_chatId v = chatId
                        \<and> Vote_messageId v \<in> set (map Message_id (messages_from s chatId timestamp))))
                       (db_votes s))\<rparr>)"
  using assms
  unfolding deleteMessagesByChatIdAfterTimestamp_def try_catch_def io_bind_def io_throw_def
    io_return_def message_findMany_def vote_deleteMany_def message_deleteMany_def prisma_step
    findManyRows_plain Let_def messages_from_def
  by (auto simp: advance_def split: option.splits if_splits prod.splits sum.splits)

lemma cascade_is_by_id:
  "list_ex (\<lambda>m. (Message_chatId m = chatId
        \<and> Message_id m \<in> set (map Message_id (messages_from s chatId timestamp)))
        \<and> Message_id m = mid) (db_messages s)
   \<longleftrightarrow> mid \<in> set (map Message_id (messages_from s chatId timestamp))"
  by (auto simp: list_ex_iff messages_from_def)

text \<open>
  C9. Given unique message ids, a call that returns has deleted exactly the messages of the
  chat whose \<open>createdAt\<close> is greater than or equal to the timestamp (one created at the
  timestamp itself included), and the votes that refer to them; it returns the number of
  messages deleted. When no message matches, no table changes and the result is \<open>undefined\<close>
  (\<open>None\<close>), not a count. The votes go first: when the first two Prisma calls succeed and
  the third, the deletion of the messages, fails, the votes of the chat on those messages
  are gone and the messages are still there.
\<close>

theorem deleteMessagesByChatIdAfterTimestamp_effect:
  assumes "distinct (map Message_id (db_messages s))"
  shows "(deleteMessagesByChatIdAfterTimestamp chatId timestamp s = (Inr r, s') \<longrightarrow>
        db_messages s'
          = filter (\<lambda>m. \<not> (Message_chatId m = chatId \<and> Message_createdAt m \<ge> timestamp))
              (db_messages s)
      \<and> db_votes s'
          = filter (\<lambda>v. Vote_messageId v \<notin> set (map Message_id (messages_from s chatId timestamp)))
              (db_votes s)
      \<and> r = (if messages_from s chatId timestamp = [] then None
              else Some (length (messages_from s chatId timestamp)))
      \<and> (r = None \<longrightarrow> db_messages s' = db_messages s \<and> db_votes s' = db_votes s)
      \<and> db_users s' = db_users s \<and> db_chats s' = db_chats s \<and> db_streams s' = db_streams s
      \<and> db_documents s' = db_documents s \<and> db_suggestions s' = db_suggestions s)
   \<and> (db_faults s = None # None # Some e # rest \<and> messages_from s chatId timestamp \<noteq> [] \<longrightarrow>
        fst (deleteMessagesByChatIdAfterTimestamp chatId timestamp s)
          = Inl (ChatSDKError ''bad_request:database''
                   (Some ''Failed to delete messages by chat id after timestamp''))
      \<and> db_messages (snd (deleteMessagesByChatIdAfterTimestamp chatId timestamp s)) = db_messages s
      \<and> db_votes (snd (deleteMessagesByChatIdAfterTimestamp chatId timestamp s))
          = filter (\<lambda>v. \<not> (Vote_chatId v = chatId
                \<and> Vote_messageId v \<in> set (map Message_id (messages_from s chatId timestamp))))
              (db_votes s))"
proof (intro conjI impI)
  assume run: "deleteMessagesByChatIdAfterTimestamp chatId timestamp s = (Inr r, s')"
  let ?ids = "set (map Message_id (messages_from s chatId timestamp))"
  let ?late = "\<lambda>m. Message_chatId m = chatId \<and> Message_createdAt m \<ge> timestamp"
  let ?byid = "\<lambda>m. Message_chatId m = chatId \<and> Message_id m \<in> ?ids"
  have same: "?byid m = ?late m" if "m \<in> set (db_messages s)" for m
    using by_id_is_by_time [OF assms that, of chatId timestamp]
    by (simp add: messages_from_def)
  have keep: "filter (\<lambda>m. \<not> ?byid m) (db_messages s) = filter (\<lambda>m. \<not> ?late m) (db_messages s)"
    using same by (intro filter_cong) auto
  have count: "countRows ?byid (db_messages s) = length (messages_from s chatId timestamp)"
    unfolding countRows_def messages_from_def [of s chatId timestamp, symmetric]
    using same by (auto simp: messages_from_def intro!: arg_cong [where f = length] filter_cong)
  have votes: "filter (\<lambda>v. \<not> list_ex (\<lambda>m. ?byid m \<and> Message_id m = Vote_messageId v) (db_messages s))
         (filter (\<lambda>v. \<not> (Vote_chatId v = chatId \<and> Vote_messageId v \<in> ?ids)) (db_votes s))
       = filter (\<lambda>v. Vote_messageId v \<notin> ?ids) (db_votes s)"
    unfolding cascade_is_by_id by (auto intro: filter_cong)
  from deleteMessages_returns [OF run] consider
    (none) "messages_from s chatId timestamp = []" "r = None" "s' = advance s"
  | (some) "messages_from s chatId timestamp \<noteq> []"
      "r = Some (countRows ?byid (db_messages s))"
      "db_messages s' = filter (\<lambda>m. \<not> ?byid m) (db_messages s)"
      "db_votes s' = filter (\<lambda>v. \<not> list_ex (\<lambda>m. ?byid m \<and> Message_id m = Vote_messageId v) (db_messages s))
         (filter (\<lambda>v. \<not> (Vote_chatId v = chatId \<and> Vote_messageId v \<in> ?ids)) (db_votes s))"
      "db_users s' = db_users s" "db_chats s' = db_chats s" "db_streams s' = db_streams s"
      "db_documents s' = db_documents s" "db_suggestions s' = db_suggestions s"
    by (elim disjE) simp_all
  then have all: "db_messages s' = filter (\<lambda>m. \<not> ?late m) (db_messages s)
      \<and> db_votes s' = filter (\<lambda>v. Vote_messageId v \<notin> ?ids) (db_votes s)
      \<and> r = (if messages_from s chatId timestamp = [] then None
              else Some (length (messages_from s chatId timestamp)))
      \<and> (r = None \<longrightarrow> db_messages s' = db_messages s \<and> db_votes s' = db_votes s)
      \<and> db_users s' = db_users s \<and> db_chats s' = db_chats s \<and> db_streams s' = db_streams s
      \<and> db_documents s' = db_documents s \<and> db_suggestions s' = db_suggestions s"
  proof cases
    case none
    from none(1) have "\<forall>m \<in> set (db_messages s). \<not> ?late m"
      by (simp add: messages_from_def filter_empty_conv)
    then have "filter (\<lambda>m. \<not> ?late m) (db_messages s) = db_messages s"
      by (simp add: filter_id_conv)
    with none show ?thesis by simp
  next
    case some
    with keep count votes show ?thesis by simp
  qed
  from all show "db_messages s' = filter (\<lambda>m. \<not> ?late m) (db_messages s)" by blast
  from all show "db_votes s' = filter (\<lambda>v. Vote_messageId v \<notin> ?ids) (db_votes s)" by blast
  from all show "r = (if messages_from s chatId timestamp = [] then None
              else Some (length (messages_from s chatId timestamp)))" by blast
  from all show "db_users s' = db_users s" "db_chats s' = db_chats s" "db_streams s' = db_streams s"
    "db_documents s' = db_documents s" "db_suggestions s' = db_suggestions s" by blast+
  from all show "db_messages s' = db_messages s" "db_votes s' = db_votes s" if "r = None"
    using that by blast+
next
  assume f: "db_faults s = None # None # Some e # rest \<and> messages_from s chatId timestamp \<noteq> []"
  let ?run = "deleteMessagesByChatIdAfterTimestamp chatId timestamp s"
  from f have r: "fst ?run = Inl (ChatSDKError ''bad_request:database''
                   (Some ''Failed to delete messages by chat id after timestamp''))
      \<and> db_messages (snd ?run) = db_messages s
      \<and> db_votes (snd ?run)
          = filter (\<lambda>v. \<not> (Vote_chatId v = chatId
                \<and> Vote_messageId v \<in> set (map Message_id (messages_from s chatId timestamp))))
              (db_votes s)"
    by (simp add: deleteMessagesByChatIdAfterTimestamp_def try_catch_def io_bind_def io_throw_def
        io_return_def message_findMany_def vote_deleteMany_def message_deleteMany_def prisma_def
        findManyRows_plain Let_def messages_from_def)
  from r show "fst ?run = Inl (ChatSDKError ''bad_request:database''
                   (Some ''Failed to delete messages by chat id after timestamp''))" by blast
  from r show "db_messages (snd ?run) = db_messages s" by blast
  from r show "db_votes (snd ?run)
          = filter (\<lambda>v. \<not> (Vote_chatId v = chatId
                \<and> Vote_messageId v \<in> set (map Message_id (messages_from s chatId timestamp))))
              (db_votes s)" by blast
qed

theorem deleteMessagesByChatIdAfterTimestamp_effect_witness:
  "deleteMessagesByChatIdAfterTimestamp ''c1'' 12 example_db
     = (Inr (Some 2),
        example_db\<lparr>db_messages := [example_msg ''m1'' ''c1'' ''user'' 11], db_votes := []\<rparr>)
   \<and> messages_from example_db ''c1'' 12
       = [example_msg ''m2'' ''c1'' ''assistant'' 12, example_msg ''m3'' ''c1'' ''user'' 13]
   \<and> deleteMessagesByChatIdAfterTimestamp ''c1'' 100 example_db = (Inr None, example_db)
   \<and> db_messages (snd (deleteMessagesByChatIdAfterTimestamp ''c1'' 12
          (example_db\<lparr>db_faults := [None, None, Some ''down'']\<rparr>)))
       = db_messages example_db
   \<and> db_votes (snd (deleteMessagesByChatIdAfterTimestamp ''c1'' 12
          (example_db\<lparr>db_faults := [None, None, Some ''down'']\<rparr>))) = []"
proof -
  let ?down = "example_db\<lparr>db_faults := [None, None, Some ''down'']\<rparr>"
  have key: "distinct (map Message_id (db_messages example_db))"
    by (simp add: example_db_def example_msg_def)
  have key': "distinct (map Message_id (db_messages ?down))"
    by (simp add: example_db_def example_msg_def)
  have found: "messages_from example_db ''c1'' 12
       = [example_msg ''m2'' ''c1'' ''assistant'' 12, example_msg ''m3'' ''c1'' ''user'' 13]"
    by (simp add: messages_from_def example_db_def example_msg_def)
  have run: "deleteMessagesByChatIdAfterTimestamp ''c1'' 12 example_db
     = (Inr (Some 2),
        example_db\<lparr>db_messages := [example_msg ''m1'' ''c1'' ''user'' 11], db_votes := []\<rparr>)"
    by (simp add: deleteMessagesByChatIdAfterTimestamp_def try_catch_def io_bind_def io_throw_def
        io_return_def message_findMany_def vote_deleteMany_def message_deleteMany_def prisma_def
        findManyRows_def orderRows_def takeRows_def countRows_def Let_def
        example_db_def example_msg_def)
  have run0: "deleteMessagesByChatIdAfterTimestamp ''c1'' 100 example_db = (Inr None, example_db)"
    by (simp add: deleteMessagesByChatIdAfterTimestamp_def try_catch_def io_bind_def io_throw_def
        io_return_def message_findMany_def vote_deleteMany_def message_deleteMany_def prisma_def
        findManyRows_def orderRows_def takeRows_def countRows_def Let_def
        example_db_def example_msg_def)
  have faults: "db_faults ?down = None # None # Some ''down'' # []
      \<and> messages_from ?down ''c1'' 12 \<noteq> []"
    by (simp add: messages_from_def example_db_def example_msg_def)
  from deleteMessagesByChatIdAfterTimestamp_effect
      [OF key', where chatId = "''c1''" and timestamp = 12 and e = "''down''" and rest = "[]",
        THEN conjunct2, THEN mp, OF faults]
  have "db_messages (snd (deleteMessagesByChatIdAfterTimestamp ''c1'' 12 ?down)) = db_messages ?down
      \<and> db_votes (snd (deleteMessagesByChatIdAfterTimestamp ''c1'' 12 ?down))
          = filter (\<lambda>v. \<not> (Vote_chatId v = ''c1''
                \<and> Vote_messageId v \<in> set (map Message_id (messages_from ?down ''c1'' 12))))
              (db_votes ?down)"
    by blast
  then have order: "db_messages (snd (deleteMessagesByChatIdAfterTimestamp ''c1'' 12 ?down))
        = db_messages example_db
      \<and> db_votes (snd (deleteMessagesByChatIdAfterTimestamp ''c1'' 12 ?down)) = []"
    by (simp add: messages_from_def example_db_def example_msg_def)
  from deleteMessagesByChatIdAfterTimestamp_effect
      [OF key, where chatId = "''c1''" and timestamp = 12 and r = "Some 2"
        and s' = "example_db\<lparr>db_messages := [example_msg ''m1'' ''c1'' ''user'' 11], db_votes := []\<rparr>",
        THEN conjunct1, THEN mp, OF run]
  have "Some (2::nat) = (if messages_from example_db ''c1'' 12 = [] then None
              else Some (length (messages_from example_db ''c1'' 12)))"
    by blast
  with found run run0 order show ?thesis by simp
qed

subsection \<open>The document-versions route\<close>

lemma getDocumentById_result:
  "getDocumentById documentId s = (r, t) \<Longrightarrow>
     t = advance s
     \<and> (case fate s of
          Some x \<Rightarrow> r = Inl (ChatSDKError ''bad_request:database'' (Some ''Failed to get document by id''))
        | None \<Rightarrow> r = Inr (stored_document s documentId))"
  by (auto simp: getDocumentById_def try_catch_def io_bind_def io_return_def io_throw_def
      document_findFirst_def prisma_step stored_document_def split: option.splits)

lemma stored_document_None:
  "stored_document s documentId = None
     \<longleftrightarrow> \<not> list_ex (\<lambda>d. Document_id d = documentId) (db_documents s)"
proof -
  let ?rows = "filter (\<lambda>d. Document_id d = documentId) (db_documents s)"
  have a: "stored_document s documentId = None
      \<longleftrightarrow> sort_key (\<lambda>r. - Document_createdAt r) ?rows = []"
    by (simp add: stored_document_def findFirstRows_def orderRows_def split: list.splits)
  have b: "sort_key (\<lambda>r. - Document_createdAt r) ?rows = [] \<longleftrightarrow> ?rows = []"
    by (metis length_sort length_0_conv)
  have c: "?rows = [] \<longleftrightarrow> \<not> list_ex (\<lambda>d. Document_id d = documentId) (db_documents s)"
    by (simp add: filter_empty_conv list_ex_iff)
  from a b c show ?thesis by simp
qed

lemma stored_document_Some:
  assumes "stored_document s documentId = Some doc"
  shows "doc \<in> set (db_documents s) \<and> Document_id doc = documentId"
proof -
  from assms obtain rest where
    "sort_key (\<lambda>r. - Document_createdAt r)
       (filter (\<lambda>d. Document_id d = documentId) (db_documents s)) = doc # rest"
    by (auto simp: stored_document_def findFirstRows_def orderRows_def split: list.splits)
  then have "doc \<in> set (sort_key (\<lambda>r. - Document_createdAt r)
       (filter (\<lambda>d. Document_id d = documentId) (db_documents s)))"
    by simp
  then show ?thesis by simp
qed

text \<open>
  C8, as the code has it. The checks of a GET request apply in this order. If the
  \<open>documentId\<close> parameter is missing or empty, the response is the \<open>bad_request:api\<close> error.
  Otherwise, if the session has no user, it is \<open>unauthorized:document\<close>. Otherwise the
  document is looked up; if the lookup throws, the handler throws the same error, the query
  module's \<open>ChatSDKError\<close>, and gives no response. Otherwise, if no document has the id, the
  response is \<open>not_found:document\<close>; if the document's \<open>userId\<close> differs from the session
  user's id, \<open>forbidden:document\<close>. Otherwise the versions are fetched; if that throws, the
  handler throws the same error; and otherwise the response has status 200 and the array of
  the stored versions, in document format, followed by the current document as the last
  element. The lookup returns the newest stored document with the id, and throws only when
  its Prisma call fails.
\<close>

theorem GET_checks_in_order:
  "(if_truthy (map_of (searchParams req) ''documentId'') = None \<longrightarrow>
      GET auth getDocumentVersions req s
        = (Inr (ErrorResponse ''bad_request:api'' (Some ''Parameter documentId is missing'')), s))
   \<and> (if_truthy (map_of (searchParams req) ''documentId'') = Some documentId
        \<and> session_user auth = None \<longrightarrow>
      GET auth getDocumentVersions req s = (Inr (ErrorResponse ''unauthorized:document'' None), s))
   \<and> (if_truthy (map_of (searchParams req) ''documentId'') = Some documentId
        \<and> session_user auth = Some user
        \<and> getDocumentById documentId s = (Inl e, t) \<longrightarrow>
      GET auth getDocumentVersions req s = (Inl e, t)
      \<and> e = ChatSDKError ''bad_request:database'' (Some ''Failed to get document by id'')
      \<and> fate s \<noteq> None)
   \<and> (if_truthy (map_of (searchParams req) ''documentId'') = Some documentId
        \<and> session_user auth = Some user
        \<and> getDocumentById documentId s = (Inr None, t) \<longrightarrow>
      GET auth getDocumentVersions req s = (Inr (ErrorResponse ''not_found:document'' None), t)
      \<and> \<not> list_ex (\<lambda>d. Document_id d = documentId) (db_documents s))
   \<and> (if_truthy (map_of (searchParams req) ''documentId'') = Some documentId
        \<and> session_user auth = Some user
        \<and> getDocumentById documentId s = (Inr (Some doc), t)
        \<and> Some (Document_userId doc) \<noteq> SessionUser_id user \<longrightarrow>
      GET auth getDocumentVersions req s = (Inr (ErrorResponse ''forbidden:document'' None), t))
   \<and> (if_truthy (map_of (searchParams req) ''documentId'') = Some documentId
        \<and> session_user auth = Some user
        \<and> getDocumentById documentId s = (Inr (Some doc), t)
        \<and> Some (Document_userId doc) = SessionUser_id user
        \<and> getDocumentVersions documentId t = (Inl e, u) \<longrightarrow>
      GET auth getDocumentVersions req s = (Inl e, u))
   \<and> (if_truthy (map_of (searchParams req) ''documentId'') = Some documentId
        \<and> session_user auth = Some user
        \<and> getDocumentById documentId s = (Inr (Some doc), t)
        \<and> Some (Document_userId doc) = SessionUser_id user
        \<and> getDocumentVersions documentId t = (Inr versions, u) \<longrightarrow>
      GET auth getDocumentVersions req s
        = (Inr (JsonResponse 200
                  (map (\<lambda>v. FromVersion (toVersionDocument doc v)) versions @ [Current doc])), u))
   \<and> (getDocumentById documentId s = (Inr (Some doc), t) \<longrightarrow>
        stored_document s documentId = Some doc
        \<and> doc \<in> set (db_documents s) \<and> Document_id doc = documentId)
   \<and> (fate s = None \<longrightarrow>
        getDocumentById documentId s = (Inr (stored_document s documentId), advance s))
   \<and> (stored_document s documentId = None
        \<longleftrightarrow> \<not> list_ex (\<lambda>d. Document_id d = documentId) (db_documents s))"
proof (intro conjI impI)
  assume "if_truthy (map_of (searchParams req) ''documentId'') = None"
  then show "GET auth getDocumentVersions req s
        = (Inr (ErrorResponse ''bad_request:api'' (Some ''Parameter documentId is missing'')), s)"
    by (simp add: GET_def io_return_def)
next
  assume "if_truthy (map_of (searchParams req) ''documentId'') = Some documentId
        \<and> session_user auth = None"
  then show "GET auth getDocumentVersions req s
      = (Inr (ErrorResponse ''unauthorized:document'' None), s)"
    by (simp add: GET_def io_return_def)
next
  assume a: "if_truthy (map_of (searchParams req) ''documentId'') = Some documentId
        \<and> session_user auth = Some user
        \<and> getDocumentById documentId s = (Inl e, t)"
  then show "GET auth getDocumentVersions req s = (Inl e, t)"
    by (simp add: GET_def io_bind_def)
  from a have "getDocumentById documentId s = (Inl e, t)" by simp
  from getDocumentById_result [OF this]
  show "e = ChatSDKError ''bad_request:database'' (Some ''Failed to get document by id'')"
    and "fate s \<noteq> None"
    by (auto split: option.splits)
next
  assume a: "if_truthy (map_of (searchParams req) ''documentId'') = Some documentId
        \<and> session_user auth = Some user
        \<and> getDocumentById documentId s = (Inr None, t)"
  then show "GET auth getDocumentVersions req s
      = (Inr (ErrorResponse ''not_found:document'' None), t)"
    by (simp add: GET_def io_bind_def io_return_def)
  from a have "getDocumentById documentId s = (Inr None, t)" by simp
  from getDocumentById_result [OF this] have "stored_document s documentId = None"
    by (auto split: option.splits)
  then show "\<not> list_ex (\<lambda>d. Document_id d = documentId) (db_documents s)"
    by (simp add: stored_document_None)
next
  assume "if_truthy (map_of (searchParams req) ''documentId'') = Some documentId
        \<and> session_user auth = Some user
        \<and> getDocumentById documentId s = (Inr (Some doc), t)
        \<and> Some (Document_userId doc) \<noteq> SessionUser_id user"
  then show "GET auth getDocumentVersions req s
      = (Inr (ErrorResponse ''forbidden:document'' None), t)"
    by (simp add: GET_def io_bind_def io_return_def)
next
  assume "if_truthy (map_of (searchParams req) ''documentId'') = Some documentId
        \<and> session_user auth = Some user
        \<and> getDocumentById documentId s = (Inr (Some doc), t)
        \<and> Some (Document_userId doc) = SessionUser_id user
        \<and> getDocumentVersions documentId t = (Inl e, u)"
  then show "GET auth getDocumentVersions req s = (Inl e, u)"
    by (simp add: GET_def io_bind_def io_return_def)
next
  assume "if_truthy (map_of (searchParams req) ''documentId'') = Some documentId
        \<and> session_user auth = Some user
        \<and> getDocumentById documentId s = (Inr (Some doc), t)
        \<and> Some (Document_userId doc) = SessionUser_id user
        \<and> getDocumentVersions documentId t = (Inr versions, u)"
  then show "GET auth getDocumentVersions req s
        = (Inr (JsonResponse 200
                  (map (\<lambda>v. FromVersion (toVersionDocument doc v)) versions @ [Current doc])), u)"
    by (simp add: GET_def io_bind_def io_return_def Let_def comp_def)
next
  assume "getDocumentById documentId s = (Inr (Some doc), t)"
  from getDocumentById_result [OF this]
  show st: "stored_document s documentId = Some doc"
    by (auto split: option.splits)
  from stored_document_Some [OF st]
  show "doc \<in> set (db_documents s)" and "Document_id doc = documentId"
    by simp_all
next
  assume "fate s = None"
  then show "getDocumentById documentId s = (Inr (stored_document s documentId), advance s)"
    by (simp add: getDocumentById_def try_catch_def io_bind_def io_return_def
        document_findFirst_def prisma_step stored_document_def)
next
  show "stored_document s documentId = None
        \<longleftrightarrow> \<not> list_ex (\<lambda>d. Document_id d = documentId) (db_documents s)"
    by (rule stored_document_None)
qed

theorem GET_checks_in_order_witness:
  "GET example_session example_versions (example_request ''d1'') example_db
     = (Inr (JsonResponse 200
          [FromVersion \<lparr>vd_id = ''d1'', vd_title = Some ''Notes'', vd_content = JsonStr ''first draft'',
             vd_kind = KindText, vd_userId = ''u1'', vd_createdAt = 6, vd_updatedAt = 7\<rparr>,
           FromVersion \<lparr>vd_id = ''d1'', vd_title = Some ''Notes 2'', vd_content = JsonStr [],
             vd_kind = KindText, vd_userId = ''u1'', vd_createdAt = 8, vd_updatedAt = 9\<rparr>,
           Current \<lparr>Document_id = ''d1'', Document_userId = ''u1'', Document_title = Some ''Notes'',
             Document_content = Some ''hello'', Document_kind = KindText, Document_createdAt = 5\<rparr>]),
        example_db)
   \<and> GET example_session example_versions (example_request ''d7'') example_db
     = (Inr (ErrorResponse ''not_found:document'' None), example_db)"
proof -
  let ?doc = "\<lparr>Document_id = ''d1'', Document_userId = ''u1'', Document_title = Some ''Notes'',
             Document_content = Some ''hello'', Document_kind = KindText, Document_createdAt = 5\<rparr>"
  let ?versions = "[\<lparr>Version_id = ''v1'', Version_documentId = ''d1'', Version_userId = ''u1'',
         Version_title = None,
         Version_contentRich = Some (JsonObj [(''content'', JsonStr ''first draft'')]),
         Version_createdAt = 6, Version_updatedAt = 7\<rparr>,
        \<lparr>Version_id = ''v2'', Version_documentId = ''d1'', Version_userId = ''u1'',
         Version_title = Some ''Notes 2'', Version_contentRich = None,
         Version_createdAt = 8, Version_updatedAt = 9\<rparr>]"
  have ok: "if_truthy (map_of (searchParams (example_request ''d1'')) ''documentId'') = Some ''d1''
        \<and> session_user example_session = Some \<lparr>SessionUser_id = Some ''u1''\<rparr>
        \<and> getDocumentById ''d1'' example_db = (Inr (Some ?doc), example_db)
        \<and> Some (Document_userId ?doc) = SessionUser_id \<lparr>SessionUser_id = Some ''u1''\<rparr>
        \<and> example_versions ''d1'' example_db = (Inr ?versions, example_db)"
    by (simp add: if_truthy_def example_request_def session_user_def example_session_def
        example_db_def getDocumentById_def try_catch_def io_bind_def document_findFirst_def
        prisma_def findFirstRows_def orderRows_def example_versions_def io_return_def)
  have missing: "if_truthy (map_of (searchParams (example_request ''d7'')) ''documentId'') = Some ''d7''
        \<and> session_user example_session = Some \<lparr>SessionUser_id = Some ''u1''\<rparr>
        \<and> getDocumentById ''d7'' example_db = (Inr None, example_db)"
    by (simp add: if_truthy_def example_request_def session_user_def example_session_def
        example_db_def getDocumentById_def try_catch_def io_bind_def document_findFirst_def
        prisma_def findFirstRows_def orderRows_def io_return_def)
  note found = GET_checks_in_order
    [where getDocumentVersions = example_versions and auth = example_session
       and req = "example_request ''d1''" and s = example_db and t = example_db
       and u = example_db and documentId = "''d1''" and doc = ?doc and versions = ?versions
       and user = "\<lparr>SessionUser_id = Some ''u1''\<rparr>",
     THEN conjunct2, THEN conjunct2, THEN conjunct2, THEN conjunct2, THEN conjunct2,
     THEN conjunct2, THEN conjunct1, THEN mp, OF ok]
  note absent = GET_checks_in_order
    [where getDocumentVersions = example_versions and auth = example_session
       and req = "example_request ''d7''" and s = example_db and t = example_db
       and documentId = "''d7''" and user = "\<lparr>SessionUser_id = Some ''u1''\<rparr>",
     THEN conjunct2, THEN conjunct2, THEN conjunct2, THEN conjunct1, THEN mp, OF missing,
     THEN conjunct1]
  from found absent
  show ?thesis
    by (simp add: toVersionDocument_def if_truthy_def or_empty_def)
qed

text \<open>
  C8 as worded does not hold. A request with \<open>?documentId=\<close> has the parameter, with an empty
  value, and no session; the response is \<open>bad_request:api\<close>, not \<open>unauthorized:document\<close>.
  And a request by the owner for an existing document, made while the database is down,
  gets none of the five responses: the handler throws.
\<close>

theorem GET_empty_documentId_counterexample:
  "map_of (searchParams (example_request [])) ''documentId'' = Some []
   \<and> session_user None = None
   \<and> fst (GET None example_versions (example_request []) example_db)
       = Inr (ErrorResponse ''bad_request:api'' (Some ''Parameter documentId is missing''))
   \<and> fst (GET None example_versions (example_request []) example_db)
       \<noteq> Inr (ErrorResponse ''unauthorized:document'' None)
   \<and> fst (GET example_session example_versions (example_request ''d1'')
            (example_db\<lparr>db_faults := [Some ''connection lost'']\<rparr>))
       = Inl (ChatSDKError ''bad_request:database'' (Some ''Failed to get document by id''))"
  by (simp add: GET_def if_truthy_def example_request_def session_user_def example_session_def
      io_return_def io_bind_def io_throw_def getDocumentById_def try_catch_def
      document_findFirst_def prisma_def)


end
